theory Spec2Isabelle
  imports Main "HOL-Library.Sublist"
begin

section \<open>Strings and the JavaScript library functions the proxy calls\<close>

text \<open>
  The program verified here is \<^verbatim>\<open>src/index.js\<close>: an Express application that forwards
  \<^verbatim>\<open>/proxy?url=<absolute URL>\<close> to the named upstream through one \<^verbatim>\<open>http-proxy\<close>
  instance and rewrites headers in the hooks \<^verbatim>\<open>proxyReq\<close>, \<^verbatim>\<open>proxyRes\<close> and \<^verbatim>\<open>error\<close>.
  The repository holds two more entry points, which are not modelled: a simpler variant of
  this proxy (parameter \<^verbatim>\<open>target\<close>, cookies passed through, no header removed) and the
  launcher of another proxy.

  A JavaScript string is modelled as a \<^typ>\<open>string\<close> holding its UTF-8 bytes. All the
  characters the code tests for (\<^verbatim>\<open>;\<close>, \<^verbatim>\<open>=\<close>, \<^verbatim>\<open>$\<close>, the letters of the attribute
  names) are ASCII, so they are single bytes that never occur inside a longer sequence.

  Node's WHATWG \<^verbatim>\<open>URL\<close> constructor is not part of the repository. It is a parameter of
  the model, of type \<open>URL_ctor\<close>: \<open>U s b\<close> is \<^verbatim>\<open>new URL(s, b)\<close>, with \<open>None\<close> for the
  \<^verbatim>\<open>TypeError\<close> the constructor throws, and a \<open>URL\<close> record holds the getters the code reads.

  \<^verbatim>\<open>http-proxy\<close> reads its target and the \<^verbatim>\<open>Location\<close> of a redirect with Node's older
  \<^verbatim>\<open>url.parse\<close>. That function is a parameter too, a \<open>legacy_url\<close> record:
  \<open>protocol_of L s\<close> and \<open>host_of L s\<close> are \<^verbatim>\<open>url.parse(s).protocol\<close> and
  \<^verbatim>\<open>url.parse(s).host\<close>, \<open>None\<close> for \<^verbatim>\<open>null\<close>, and \<open>rehost L s h\<close> is the \<^verbatim>\<open>format()\<close> of
  \<^verbatim>\<open>url.parse(s)\<close> after its \<^verbatim>\<open>host\<close> has been set to \<open>h\<close>.
\<close>

record URL =
  href :: string
  origin :: string
  hostname :: string
  pathname :: string
  search :: string
  hash :: string

type_synonym URL_ctor = "string \<Rightarrow> string option \<Rightarrow> URL option"

record legacy_url =
  protocol_of :: "string \<Rightarrow> string option"
  host_of :: "string \<Rightarrow> string option"
  rehost :: "string \<Rightarrow> string option \<Rightarrow> string"

subsection \<open>\<^verbatim>\<open>encodeURIComponent\<close>\<close>

text \<open>
  Every byte is escaped as \<^verbatim>\<open>%XX\<close> (upper-case hexadecimal) except the unreserved
  characters \<^verbatim>\<open>A-Z a-z 0-9 - _ . ! ~ * ' ( )\<close>.
\<close>

definition is_alnum :: "char \<Rightarrow> bool" where
  "is_alnum c = (let n = (of_char c :: nat) in
     (48 \<le> n \<and> n \<le> 57) \<or> (65 \<le> n \<and> n \<le> 90) \<or> (97 \<le> n \<and> n \<le> 122))"

definition unreserved :: "char \<Rightarrow> bool" where
  "unreserved c = (is_alnum c \<or> c \<in> set ''-_.!~*()'' \<or> c = CHR 0x27)"

definition hexdigit :: "nat \<Rightarrow> char" where
  "hexdigit n = ''0123456789ABCDEF'' ! n"

definition percent_encode_byte :: "char \<Rightarrow> string" where
  "percent_encode_byte c =
     [CHR ''%'', hexdigit ((of_char c :: nat) div 16), hexdigit ((of_char c :: nat) mod 16)]"

definition encodeURIComponent :: "string \<Rightarrow> string" where
  "encodeURIComponent s =
     concat (map (\<lambda>c. if unreserved c then [c] else percent_encode_byte c) s)"

subsection \<open>\<^verbatim>\<open>URLSearchParams.get\<close>\<close>

text \<open>
  \<^verbatim>\<open>u.searchParams\<close> is the \<^verbatim>\<open>application/x-www-form-urlencoded\<close> parse of the query of
  \<open>u\<close>: split at \<^verbatim>\<open>&\<close>, drop empty pieces, split each piece at its first \<^verbatim>\<open>=\<close>, turn
  \<^verbatim>\<open>+\<close> into a space and percent-decode name and value. \<^verbatim>\<open>get\<close> returns the value of the
  first pair with the name asked for, or \<^verbatim>\<open>null\<close> (\<open>None\<close>). The decoded bytes are
  the string: reading them as UTF-8 changes nothing on a well-formed string, and the
  replacement of malformed sequences is not modelled.
\<close>

definition hex_val :: "char \<Rightarrow> nat option" where
  "hex_val c = (let n = (of_char c :: nat) in
     if 48 \<le> n \<and> n \<le> 57 then Some (n - 48)
     else if 65 \<le> n \<and> n \<le> 70 then Some (n - 55)
     else if 97 \<le> n \<and> n \<le> 102 then Some (n - 87)
     else None)"

fun percent_decode :: "string \<Rightarrow> string" where
  "percent_decode (c # h1 # h2 # r) =
     (if c = CHR ''%'' then
        (case (hex_val h1, hex_val h2) of
           (Some a, Some b) \<Rightarrow> char_of (16 * a + b) # percent_decode r
         | _ \<Rightarrow> c # percent_decode (h1 # h2 # r))
      else c # percent_decode (h1 # h2 # r))"
| "percent_decode (c # r) = c # percent_decode r"
| "percent_decode [] = []"

fun split_on :: "char \<Rightarrow> string \<Rightarrow> string list" where
  "split_on d [] = [[]]"
| "split_on d (c # cs) =
     (if c = d then [] # split_on d cs
      else (case split_on d cs of p # ps \<Rightarrow> (c # p) # ps | [] \<Rightarrow> [[c]]))"

definition plus_to_space :: "string \<Rightarrow> string" where
  "plus_to_space s = map (\<lambda>c. if c = CHR ''+'' then CHR '' '' else c) s"

definition form_decode :: "string \<Rightarrow> string" where
  "form_decode s = percent_decode (plus_to_space s)"

definition parse_pair :: "string \<Rightarrow> string \<times> string" where
  "parse_pair seg =
     (form_decode (takeWhile (\<lambda>c. c \<noteq> CHR ''='') seg),
      form_decode (drop 1 (dropWhile (\<lambda>c. c \<noteq> CHR ''='') seg)))"

definition urlencoded_parse :: "string \<Rightarrow> (string \<times> string) list" where
  "urlencoded_parse q = map parse_pair (filter (\<lambda>seg. seg \<noteq> []) (split_on CHR ''&'' q))"

definition searchParams_get :: "URL \<Rightarrow> string \<Rightarrow> string option" where
  "searchParams_get u name = map_of (urlencoded_parse (drop 1 (search u))) name"

subsection \<open>The regular expressions of the cookie rewrite\<close>

text \<open>
  The three patterns of the source are \<^verbatim>\<open>/;\s*Domain=[^;]*/i\<close>, \<^verbatim>\<open>/;\s*SameSite=/i\<close> and
  \<^verbatim>\<open>/;\s*Secure/i\<close>: a semicolon, white space, a literal compared without regard to
  case and, for the first, everything up to the next semicolon.

  Without the \<^verbatim>\<open>u\<close> flag no character outside ASCII compares equal to an ASCII letter,
  so the comparison is that of \<open>lower_code\<close>: the code of a character, with the
  upper-case ASCII letters mapped to the lower-case ones.

  \<open>ws_len\<close> is the number of bytes of the white-space character (\<^verbatim>\<open>\s\<close>) a string
  starts with, 0 when it starts with none: one byte for tab, line feed, vertical tab, form
  feed, carriage return and space, two for U+00A0, and three (\<open>ws3\<close>) for U+1680,
  U+2000 to U+200A, U+2028, U+2029, U+202F, U+205F, U+3000 and U+FEFF. After \<^verbatim>\<open>\s*\<close> the
  literal starts with a letter, so the only match takes all the white space.
\<close>

definition lower_code :: "char \<Rightarrow> nat" where
  "lower_code c = (let n = (of_char c :: nat) in if 65 \<le> n \<and> n \<le> 90 then n + 32 else n)"

definition ci_prefix :: "string \<Rightarrow> string \<Rightarrow> bool" where
  "ci_prefix lit s =
     (length lit \<le> length s \<and> map lower_code (take (length lit) s) = map lower_code lit)"

definition ws3 :: "nat \<Rightarrow> nat \<Rightarrow> nat \<Rightarrow> bool" where
  "ws3 b0 b1 b2 =
     ((b0 = 0xE1 \<and> b1 = 0x9A \<and> b2 = 0x80) \<or>
      (b0 = 0xE2 \<and> b1 = 0x80 \<and>
         ((0x80 \<le> b2 \<and> b2 \<le> 0x8A) \<or> b2 = 0xA8 \<or> b2 = 0xA9 \<or> b2 = 0xAF)) \<or>
      (b0 = 0xE2 \<and> b1 = 0x81 \<and> b2 = 0x9F) \<or>
      (b0 = 0xE3 \<and> b1 = 0x80 \<and> b2 = 0x80) \<or>
      (b0 = 0xEF \<and> b1 = 0xBB \<and> b2 = 0xBF))"

fun ws_len :: "string \<Rightarrow> nat" where
  "ws_len [] = 0"
| "ws_len (c0 # r) =
     (let b0 = (of_char c0 :: nat) in
      if b0 \<in> {9, 10, 11, 12, 13, 32} then 1
      else (case r of
              [] \<Rightarrow> 0
            | c1 # r' \<Rightarrow>
                if b0 = 0xC2 \<and> (of_char c1 :: nat) = 0xA0 then 2
                else (case r' of
                        [] \<Rightarrow> 0
                      | c2 # _ \<Rightarrow> if ws3 b0 (of_char c1) (of_char c2) then 3 else 0)))"

text \<open>
  \<open>span_ws k s\<close> splits \<open>s\<close> after \<open>k\<close> bytes and all the white space that
  follows them.
\<close>

fun span_ws :: "nat \<Rightarrow> string \<Rightarrow> string \<times> string" where
  "span_ws k [] = ([], [])"
| "span_ws (Suc k) (c # cs) = (case span_ws k cs of (w, r) \<Rightarrow> (c # w, r))"
| "span_ws 0 (c # cs) =
     (let n = ws_len (c # cs)
      in if n = 0 then ([], c # cs)
         else (case span_ws (n - 1) cs of (w, r) \<Rightarrow> (c # w, r)))"

text \<open>
  \<open>match_attr lit tail s\<close> is the match of \<^verbatim>\<open>;\s*lit\<close> (followed by \<^verbatim>\<open>[^;]*\<close> when
  \<open>tail\<close>) at the start of \<open>s\<close>: the text matched and the rest of \<open>s\<close>.
  \<open>regex_search\<close> finds the leftmost position with a match, as
  \<^verbatim>\<open>RegExp.prototype.exec\<close> does, and returns the text before the match, the match and the
  text after it.
\<close>

definition match_attr :: "string \<Rightarrow> bool \<Rightarrow> string \<Rightarrow> (string \<times> string) option" where
  "match_attr lit tail s =
     (case s of
        [] \<Rightarrow> None
      | c # r \<Rightarrow>
          if c \<noteq> CHR '';'' then None
          else (case span_ws 0 r of
                  (w, r1) \<Rightarrow>
                    if \<not> ci_prefix lit r1 then None
                    else (let r2 = drop (length lit) r1
                          in if tail
                             then Some (c # w @ take (length lit) r1 @
                                          takeWhile (\<lambda>x. x \<noteq> CHR '';'') r2,
                                        dropWhile (\<lambda>x. x \<noteq> CHR '';'') r2)
                             else Some (c # w @ take (length lit) r1, r2))))"

fun regex_search :: "(string \<Rightarrow> (string \<times> string) option) \<Rightarrow> string
    \<Rightarrow> (string \<times> string \<times> string) option" where
  "regex_search m [] = map_option (\<lambda>(x, r). ([], x, r)) (m [])"
| "regex_search m (c # cs) =
     (case m (c # cs) of
        Some (x, r) \<Rightarrow> Some ([], x, r)
      | None \<Rightarrow> map_option (\<lambda>(p, x, r). (c # p, x, r)) (regex_search m cs))"

definition js_test :: "(string \<Rightarrow> (string \<times> string) option) \<Rightarrow> string \<Rightarrow> bool" where
  "js_test m s = (regex_search m s \<noteq> None)"

text \<open>
  \<^verbatim>\<open>String.prototype.replace\<close> with a pattern that is not global replaces the first
  match only, and expands \<^verbatim>\<open>$$\<close>, \<^verbatim>\<open>$&\<close>, \<^verbatim>\<open>$`\<close> and \<^verbatim>\<open>$'\<close> in the replacement
  string (the patterns have no capture group, so \<^verbatim>\<open>$1\<close> and the like stay as written).
\<close>

fun get_substitution :: "string \<Rightarrow> string \<Rightarrow> string \<Rightarrow> string \<Rightarrow> string" where
  "get_substitution matched pre post [] = []"
| "get_substitution matched pre post [c] = [c]"
| "get_substitution matched pre post (c # d # r) =
     (if c \<noteq> CHR ''$'' then c # get_substitution matched pre post (d # r)
      else if d = CHR ''$'' then CHR ''$'' # get_substitution matched pre post r
      else if d = CHR ''&'' then matched @ get_substitution matched pre post r
      else if d = CHR 0x60 then pre @ get_substitution matched pre post r
      else if d = CHR 0x27 then post @ get_substitution matched pre post r
      else c # get_substitution matched pre post (d # r))"

definition js_replace :: "(string \<Rightarrow> (string \<times> string) option) \<Rightarrow> string \<Rightarrow> string \<Rightarrow> string" where
  "js_replace m s repl =
     (case regex_search m s of
        None \<Rightarrow> s
      | Some (p, x, r) \<Rightarrow> p @ get_substitution x p r repl @ r)"

section \<open>The proxy\<close>

subsection \<open>Requests, responses and configuration\<close>

text \<open>
  \<open>req_headers\<close> is Node's \<^verbatim>\<open>req.headers\<close> (names in lower case); \<open>targetOrigin\<close> and
  \<open>proto\<close> are the fields \<^verbatim>\<open>req._targetOrigin\<close> and \<^verbatim>\<open>req._proto\<close> the handlers stash on
  the request, \<open>None\<close> while they are \<^verbatim>\<open>undefined\<close>; \<open>req_protocol\<close> is Express's
  \<^verbatim>\<open>req.protocol\<close>.
\<close>

record request =
  req_url :: string
  req_headers :: "string \<rightharpoonup> string"
  req_protocol :: string
  targetOrigin :: "string option"
  proto :: "string option"

text \<open>
  An upstream response as the \<^verbatim>\<open>proxyRes\<close> hook sees it. Node gives every header as one
  string, except \<^verbatim>\<open>set-cookie\<close>, which is an array of strings.
\<close>

record proxyRes =
  pr_statusCode :: nat
  pr_headers :: "string \<rightharpoonup> string"
  pr_setCookie :: "string list option"
  pr_body :: string

text \<open>The arguments of \<^verbatim>\<open>res.cookie(name, value, options)\<close>; \<open>ck_maxAge\<close> is in milliseconds.\<close>

record cookie =
  ck_name :: string
  ck_value :: string
  ck_httpOnly :: bool
  ck_sameSite :: string
  ck_maxAge :: nat

datatype set_cookie_entry = Own cookie | Upstream string

text \<open>The response to the client: Express's \<^verbatim>\<open>res\<close>.\<close>

record response =
  res_statusCode :: nat
  res_headers :: "string \<rightharpoonup> string"
  res_setCookie :: "set_cookie_entry list"
  res_body :: string
  headersSent :: bool
  finished :: bool

definition fresh_response :: response where
  "fresh_response =
     \<lparr>res_statusCode = 200, res_headers = Map.empty, res_setCookie = [], res_body = [],
      headersSent = False, finished = False\<rparr>"

text \<open>
  A request as the handlers hand it to \<^verbatim>\<open>http-proxy\<close>, after the \<^verbatim>\<open>proxyReq\<close> hook: the
  target, the \<^verbatim>\<open>req.url\<close> the library takes path and query from, and the headers.
\<close>

record outgoing =
  out_target :: string
  out_path :: string
  out_headers :: "string \<rightharpoonup> string"

datatype upstream_result = UpResponse proxyRes | UpError string

type_synonym upstream = "outgoing \<Rightarrow> upstream_result"

datatype exn = TypeError

text \<open>
  \<^verbatim>\<open>const ALLOWLIST = null\<close> is a deployment-time constant of the source. The functions
  below take the allowlist as a parameter, so that a configured list can be stated.
\<close>

definition ALLOWLIST :: "string list option" where
  "ALLOWLIST = None"

definition endsWith :: "string \<Rightarrow> string \<Rightarrow> bool" where
  "endsWith s t = (length t \<le> length s \<and> drop (length s - length t) s = t)"

definition allowedHost :: "string list option \<Rightarrow> string \<Rightarrow> bool" where
  "allowedHost allowlist hn =
     (case allowlist of
        None \<Rightarrow> True
      | Some hs \<Rightarrow> list_ex (\<lambda>h. h = hn \<or> endsWith hn (''.'' @ h)) hs)"

text \<open>JavaScript truthiness of a possibly undefined string.\<close>

definition truthy :: "string option \<Rightarrow> bool" where
  "truthy v = (case v of None \<Rightarrow> False | Some s \<Rightarrow> s \<noteq> [])"

text \<open>A possibly undefined string inside a template literal.\<close>

definition js_string :: "string option \<Rightarrow> string" where
  "js_string v = (case v of None \<Rightarrow> ''undefined'' | Some s \<Rightarrow> s)"

subsection \<open>Express and Node response operations\<close>

text \<open>
  \<^verbatim>\<open>res.status(c)\<close>, \<^verbatim>\<open>res.cookie\<close>, \<^verbatim>\<open>res.writeHead\<close>, \<^verbatim>\<open>res.end\<close> and \<^verbatim>\<open>res.send\<close>.
  \<^verbatim>\<open>res.end(chunk)\<close> writes the chunk as the last piece of the body unless the response
  has ended already. The headers Express adds by itself on \<^verbatim>\<open>send\<close> (content type,
  length, entity tag) are not modelled.
\<close>

definition status :: "response \<Rightarrow> nat \<Rightarrow> response" where
  "status res code = res\<lparr>res_statusCode := code\<rparr>"

definition res_cookie :: "response \<Rightarrow> cookie \<Rightarrow> response" where
  "res_cookie res c = res\<lparr>res_setCookie := res_setCookie res @ [Own c]\<rparr>"

definition writeHead :: "response \<Rightarrow> nat \<Rightarrow> (string \<rightharpoonup> string) \<Rightarrow> response" where
  "writeHead res code hs =
     res\<lparr>res_statusCode := code, res_headers := res_headers res ++ hs, headersSent := True\<rparr>"

definition res_end :: "response \<Rightarrow> string \<Rightarrow> response" where
  "res_end res chunk =
     (if finished res then res
      else res\<lparr>res_body := res_body res @ chunk, headersSent := True, finished := True\<rparr>)"

definition send :: "response \<Rightarrow> string \<Rightarrow> response" where
  "send res b = res_end res b"

subsection \<open>The hooks on the proxy instance\<close>

text \<open>\<^verbatim>\<open>proxy.on("error", (err, req, res) => ...)\<close>; \<open>err\<close> is only logged.\<close>

definition on_error :: "string \<Rightarrow> request \<Rightarrow> response \<Rightarrow> response" where
  "on_error err req res =
     res_end
       (if \<not> headersSent res then writeHead res 502 [''content-type'' \<mapsto> ''text/plain''] else res)
       ''Proxy error''"

text \<open>The function mapped over the \<^verbatim>\<open>set-cookie\<close> array; \<open>host\<close> is \<^verbatim>\<open>req.headers.host\<close>.\<close>

definition rewrite_cookie :: "string option \<Rightarrow> string \<Rightarrow> string" where
  "rewrite_cookie host c =
     (let c1 = js_replace (match_attr ''Domain='' True) c (''; Domain='' @ js_string host);
          c2 = (if \<not> js_test (match_attr ''SameSite='' False) c1 then c1 @ ''; SameSite=None'' else c1);
          c3 = (if \<not> js_test (match_attr ''Secure'' False) c2 then c2 @ ''; Secure'' else c2)
      in c3)"

text \<open>
  \<^verbatim>\<open>proxy.on("proxyRes", (proxyRes, req, res) => ...)\<close>. The base of the resolution is
  \<^verbatim>\<open>req._targetOrigin || undefined\<close>; a \<^verbatim>\<open>TypeError\<close> of the constructor is caught and
  leaves the header as it was. (\<^verbatim>\<open>selfOrigin\<close> is computed in the source and not used.)
\<close>

definition on_proxyRes :: "URL_ctor \<Rightarrow> proxyRes \<Rightarrow> request \<Rightarrow> proxyRes" where
  "on_proxyRes U pr req =
     (let h1 = (pr_headers pr)
                 (''content-security-policy'' := None,
                  ''content-security-policy-report-only'' := None,
                  ''x-frame-options'' := None);
          h2 = (case h1 ''location'' of
                  None \<Rightarrow> h1
                | Some loc \<Rightarrow>
                    if loc = [] then h1
                    else (case U loc (if truthy (targetOrigin req) then targetOrigin req else None) of
                            None \<Rightarrow> h1
                          | Some absolute \<Rightarrow>
                              h1(''location'' \<mapsto> ''/proxy?url='' @ encodeURIComponent (href absolute))));
          sc = (case pr_setCookie pr of
                  None \<Rightarrow> None
                | Some setCookies \<Rightarrow>
                    Some (map (rewrite_cookie (req_headers req ''host'')) setCookies))
      in pr\<lparr>pr_headers := h2, pr_setCookie := sc\<rparr>)"

text \<open>\<^verbatim>\<open>proxy.on("proxyReq", (proxyReq, req) => ...)\<close>.\<close>

definition setHeader :: "outgoing \<Rightarrow> string \<Rightarrow> string \<Rightarrow> outgoing" where
  "setHeader proxyReq name v = proxyReq\<lparr>out_headers := (out_headers proxyReq)(name \<mapsto> v)\<rparr>"

definition default_user_agent :: string where
  "default_user_agent =
     ''Mozilla/5.0 (Windows NT 10.0; Win64; x64) AppleWebKit/537.36 (KHTML, like Gecko) Chrome Safari''"

definition on_proxyReq :: "outgoing \<Rightarrow> request \<Rightarrow> outgoing" where
  "on_proxyReq proxyReq req =
     (case targetOrigin req of
        None \<Rightarrow> proxyReq
      | Some upstreamOrigin \<Rightarrow>
          if upstreamOrigin = [] then proxyReq
          else (let p1 = setHeader proxyReq ''origin'' upstreamOrigin;
                    p2 = setHeader p1 ''referer'' (upstreamOrigin @ ''/'')
                in if \<not> truthy (req_headers req ''user-agent'')
                   then setHeader p2 ''user-agent'' default_user_agent
                   else p2))"

subsection \<open>Target resolution\<close>

text \<open>
  \<^verbatim>\<open>parseTargetFromReq(fullUrl, base)\<close>. The first constructor call is outside the
  \<^verbatim>\<open>try\<close>, so its \<^verbatim>\<open>TypeError\<close> leaves the function (\<open>Inl\<close>); the second is inside and
  becomes \<^verbatim>\<open>null\<close> (\<open>Inr None\<close>).
\<close>

definition parseTargetFromReq :: "URL_ctor \<Rightarrow> string \<Rightarrow> string \<Rightarrow> exn + URL option" where
  "parseTargetFromReq U fullUrl base =
     (case U fullUrl (Some base) of
        None \<Rightarrow> Inl TypeError
      | Some u \<Rightarrow>
          (case searchParams_get u ''url'' of
             None \<Rightarrow> Inr None
           | Some raw \<Rightarrow> if raw = [] then Inr None else Inr (U raw None)))"

subsection \<open>Dispatch through \<^verbatim>\<open>http-proxy\<close>\<close>

text \<open>
  The proxy instance is created with \<^verbatim>\<open>changeOrigin: true\<close>, and \<^verbatim>\<open>proxy.web\<close> is called with
  \<^verbatim>\<open>autoRewrite: true\<close>.

  \<^verbatim>\<open>proxy.web(req, res, {target, autoRewrite})\<close> and \<^verbatim>\<open>proxy.ws(req, socket, head, {target})\<close>
  both build the outgoing request first. Under \<^verbatim>\<open>changeOrigin\<close> that step reads the protocol
  of the target and throws a \<^verbatim>\<open>TypeError\<close> when the target has none (as the origin
  \<^verbatim>\<open>null\<close>); nothing is sent then.

  Otherwise the outgoing request takes the path from \<^verbatim>\<open>req.url\<close> and a copy of the
  client's headers. In \<^verbatim>\<open>proxy.web\<close> the \<^verbatim>\<open>proxyReq\<close> hook runs on it and it is sent. A
  failure runs the \<^verbatim>\<open>error\<close> hook. A response runs the \<^verbatim>\<open>proxyRes\<close> hook, then the
  library's redirect pass, after which the library copies status and headers to \<open>res\<close>
  (\<^verbatim>\<open>res.setHeader\<close> per header, so an upstream \<^verbatim>\<open>set-cookie\<close> replaces the one already on
  \<open>res\<close>) and pipes the body. The headers the library sets by itself (\<^verbatim>\<open>Host\<close> under
  \<^verbatim>\<open>changeOrigin\<close>, \<^verbatim>\<open>Connection\<close>) are not modelled.

  The redirect pass (\<^verbatim>\<open>setRedirectHostRewrite\<close>) applies to a response with a non-empty
  \<^verbatim>\<open>Location\<close> and a status code that passes the library's test
  \<^verbatim>\<open>/^201|30(1|2|7|8)$/\<close> (its decimal digits start with 201, or end with 301, 302, 307 or
  308): when the host of the \<^verbatim>\<open>Location\<close> is the host of the target, it puts the \<^verbatim>\<open>Host\<close>
  header of the request in its place.

  \<^verbatim>\<open>proxy.ws\<close> emits \<^verbatim>\<open>proxyReqWs\<close>, not \<^verbatim>\<open>proxyReq\<close>, and the source registers no hook
  for that event: the handshake request goes out with the client's headers.
\<close>

fun starts_with_201 :: "nat \<Rightarrow> bool" where
  "starts_with_201 n = (if n \<le> 201 then n = 201 else starts_with_201 (n div 10))"

declare starts_with_201.simps [simp del]

definition redirectRegex_test :: "nat \<Rightarrow> bool" where
  "redirectRegex_test n = (starts_with_201 n \<or> n mod 1000 \<in> {301, 302, 307, 308})"

definition setRedirectHostRewrite :: "legacy_url \<Rightarrow> request \<Rightarrow> string \<Rightarrow> proxyRes \<Rightarrow> proxyRes" where
  "setRedirectHostRewrite L req target pr =
     (case pr_headers pr ''location'' of
        None \<Rightarrow> pr
      | Some loc \<Rightarrow>
          if loc \<noteq> [] \<and> redirectRegex_test (pr_statusCode pr) \<and>
             host_of L target = host_of L loc
          then pr\<lparr>pr_headers :=
                    (pr_headers pr)(''location'' \<mapsto> rehost L loc (req_headers req ''host''))\<rparr>
          else pr)"

definition relay :: "proxyRes \<Rightarrow> response \<Rightarrow> response" where
  "relay pr res =
     res\<lparr>res_statusCode := pr_statusCode pr,
         res_headers := res_headers res ++ pr_headers pr,
         res_setCookie := (case pr_setCookie pr of
                             None \<Rightarrow> res_setCookie res
                           | Some cs \<Rightarrow> map Upstream cs),
         res_body := res_body res @ pr_body pr,
         headersSent := True,
         finished := True\<rparr>"

definition web_stream :: "legacy_url \<Rightarrow> URL_ctor \<Rightarrow> upstream \<Rightarrow> request \<Rightarrow> response \<Rightarrow> string
    \<Rightarrow> response \<times> outgoing list" where
  "web_stream L U up req res target =
     (let proxyReq = on_proxyReq
            \<lparr>out_target = target, out_path = req_url req, out_headers = req_headers req\<rparr> req
      in case up proxyReq of
           UpError err \<Rightarrow> (on_error err req res, [proxyReq])
         | UpResponse pr \<Rightarrow>
             (relay (setRedirectHostRewrite L req target (on_proxyRes U pr req)) res,
              [proxyReq]))"

definition proxy_web :: "legacy_url \<Rightarrow> URL_ctor \<Rightarrow> upstream \<Rightarrow> request \<Rightarrow> response \<Rightarrow> string
    \<Rightarrow> exn + response \<times> outgoing list" where
  "proxy_web L U up req res target =
     (if protocol_of L target = None then Inl TypeError
      else Inr (web_stream L U up req res target))"

definition proxy_ws :: "legacy_url \<Rightarrow> request \<Rightarrow> string \<Rightarrow> exn + outgoing" where
  "proxy_ws L req target =
     (if protocol_of L target = None then Inl TypeError
      else Inr \<lparr>out_target = target, out_path = req_url req, out_headers = req_headers req\<rparr>)"

subsection \<open>The \<^verbatim>\<open>/proxy\<close> route\<close>

text \<open>
  \<^verbatim>\<open>app.use("/proxy", (req, res) => ...)\<close>. Express has removed the mount path from
  \<^verbatim>\<open>req.url\<close> when the handler runs. The result is the response and the list of requests
  sent upstream; \<open>Inl\<close> is an exception that leaves the handler, to which Express answers
  with status 500.
\<close>

definition first_proto :: "request \<Rightarrow> string" where
  "first_proto req =
     (let xfp = (case req_headers req ''x-forwarded-proto'' of
                   None \<Rightarrow> []
                 | Some v \<Rightarrow> v);
          p = (case split_on CHR '','' xfp of [] \<Rightarrow> [] | x # _ \<Rightarrow> x)
      in if p \<noteq> [] then p
         else if req_protocol req \<noteq> [] then req_protocol req
         else ''https'')"

definition proxy_handler :: "legacy_url \<Rightarrow> URL_ctor \<Rightarrow> string list option \<Rightarrow> upstream
    \<Rightarrow> request \<Rightarrow> response \<Rightarrow> exn + response \<times> outgoing list" where
  "proxy_handler L U allowlist up req res =
     (case parseTargetFromReq U (req_url req) ''http://proxy.local'' of
        Inl e \<Rightarrow> Inl e
      | Inr None \<Rightarrow> Inr (send (status res 400) ''Missing or invalid ?url='', [])
      | Inr (Some targetUrl) \<Rightarrow>
          if \<not> allowedHost allowlist (hostname targetUrl)
          then Inr (send (status res 403) ''Target host not allowed.'', [])
          else (let res1 = res_cookie res
                      \<lparr>ck_name = ''last_target'', ck_value = origin targetUrl,
                       ck_httpOnly = False, ck_sameSite = ''Lax'',
                       ck_maxAge = 1000 * 60 * 60 * 24 * 14\<rparr>;
                    req1 = req\<lparr>targetOrigin := Some (origin targetUrl),
                               proto := Some (first_proto req)\<rparr>;
                    req2 = req1\<lparr>req_url := pathname targetUrl @ search targetUrl @ hash targetUrl\<rparr>
                in proxy_web L U up req2 res1 (origin targetUrl)))"

subsection \<open>The WebSocket upgrade\<close>

text \<open>
  \<^verbatim>\<open>server.on("upgrade", (req, socket, head) => ...)\<close>. The result is the client socket
  and, when \<^verbatim>\<open>proxy.ws\<close> sends it, the handshake request. \<open>Inl\<close> is an exception that
  leaves the listener: no \<^verbatim>\<open>try\<close> surrounds its body, so nothing catches it and the
  socket is not destroyed.
\<close>

record socket =
  sock_written :: string
  destroyed :: bool

definition destroy :: "socket \<Rightarrow> socket" where
  "destroy sock = sock\<lparr>destroyed := True\<rparr>"

definition upgrade_handler :: "legacy_url \<Rightarrow> URL_ctor \<Rightarrow> string list option \<Rightarrow> request \<Rightarrow> socket
    \<Rightarrow> exn + socket \<times> outgoing option" where
  "upgrade_handler L U allowlist req sock =
     (case parseTargetFromReq U (req_url req) ''http://proxy.local'' of
        Inl e \<Rightarrow> Inl e
      | Inr None \<Rightarrow> Inr (destroy sock, None)
      | Inr (Some targetUrl) \<Rightarrow>
          if \<not> allowedHost allowlist (hostname targetUrl) then Inr (destroy sock, None)
          else (let req1 = req\<lparr>targetOrigin := Some (origin targetUrl)\<rparr>;
                    req2 = req1\<lparr>req_url := pathname targetUrl @ search targetUrl @ hash targetUrl\<rparr>
                in case proxy_ws L req2 (origin targetUrl) of
                     Inl e \<Rightarrow> Inl e
                   | Inr handshake \<Rightarrow> Inr (sock, Some handshake)))"

subsection \<open>The upgrade listener of the simpler variant\<close>

text \<open>
  The listener of the variant in \<^verbatim>\<open>src/unnamed/part_000\<close> resolves the parameter
  \<^verbatim>\<open>target\<close> the same way, without an allowlist, and has its whole body in a \<^verbatim>\<open>try\<close>
  whose \<^verbatim>\<open>catch\<close> destroys the socket.
\<close>

definition variant_upgrade_handler :: "legacy_url \<Rightarrow> URL_ctor \<Rightarrow> request \<Rightarrow> socket
    \<Rightarrow> socket \<times> outgoing option" where
  "variant_upgrade_handler L U req sock =
     (case U (req_url req) (Some ''http://placeholder'') of
        None \<Rightarrow> (destroy sock, None)
      | Some reqUrl \<Rightarrow>
          (case searchParams_get reqUrl ''target'' of
             None \<Rightarrow> (destroy sock, None)
           | Some targetStr \<Rightarrow>
               if targetStr = [] then (destroy sock, None)
               else (case U targetStr None of
                       None \<Rightarrow> (destroy sock, None)
                     | Some targetUrl \<Rightarrow>
                         (case proxy_ws L
                                 (req\<lparr>req_url := pathname targetUrl @ search targetUrl @
                                                   hash targetUrl\<rparr>)
                                 (origin targetUrl) of
                            Inl e \<Rightarrow> (destroy sock, None)
                          | Inr handshake \<Rightarrow> (sock, Some handshake)))))"

section \<open>Notions of the specification\<close>

text \<open>
  The value of the \<^verbatim>\<open>url\<close> parameter of a rewritten \<^verbatim>\<open>Location\<close>: the form-urlencoded
  parse of the text between its first \<^verbatim>\<open>?\<close> and the following \<^verbatim>\<open>#\<close>.
\<close>

definition extract_url_param :: "string \<Rightarrow> string option" where
  "extract_url_param l =
     map_of (urlencoded_parse
               (takeWhile (\<lambda>c. c \<noteq> CHR ''#'') (drop 1 (dropWhile (\<lambda>c. c \<noteq> CHR ''?'') l))))
            ''url''"

text \<open>A host name is a subdomain of an entry when it ends in a dot followed by the entry.\<close>

definition is_subdomain_of :: "string \<Rightarrow> string \<Rightarrow> bool" where
  "is_subdomain_of hn h = suffix (''.'' @ h) hn"

text \<open>The name-value pair of a cookie string: everything before the first semicolon.\<close>

definition cookie_pair :: "string \<Rightarrow> string" where
  "cookie_pair c = takeWhile (\<lambda>x. x \<noteq> CHR '';'') c"

text \<open>
  The \<^verbatim>\<open>Domain\<close> attributes of a cookie string as a user agent reads them: the pieces
  after the first semicolon are the attributes, the name of an attribute is the text
  before its first \<^verbatim>\<open>=\<close>, names and values are trimmed of spaces and names are compared
  without regard to case.
\<close>

definition trim :: "string \<Rightarrow> string" where
  "trim s = rev (dropWhile (\<lambda>c. c = CHR '' '') (rev (dropWhile (\<lambda>c. c = CHR '' '') s)))"

definition cookie_attributes :: "string \<Rightarrow> (string \<times> string) list" where
  "cookie_attributes c =
     map (\<lambda>a. (trim (takeWhile (\<lambda>x. x \<noteq> CHR ''='') a),
               trim (drop 1 (dropWhile (\<lambda>x. x \<noteq> CHR ''='') a))))
       (tl (split_on CHR '';'' c))"

definition domain_attributes :: "string \<Rightarrow> string list" where
  "domain_attributes c =
     map snd (filter (\<lambda>(n, v). map lower_code n = map lower_code ''domain'')
                (cookie_attributes c))"

text \<open>Characters that \<^verbatim>\<open>encodeURIComponent\<close> never leaves in its result.\<close>

definition enc_safe :: "char \<Rightarrow> bool" where
  "enc_safe c = (c \<notin> set ''&=+#'')"

section \<open>Sample points of the URL constructor\<close>

text \<open>
  The results of Node's \<^verbatim>\<open>new URL(s, b)\<close> on the inputs of the examples below, for use as
  the constructor there. The general theorems hold for every constructor; the table is
  used at its entries, and at \<^verbatim>\<open>new URL("nonsense")\<close> and
  \<^verbatim>\<open>new URL("http://[", "https://example.com")\<close>, which throw.
\<close>

definition mkURL :: "string \<Rightarrow> string \<Rightarrow> string \<Rightarrow> string \<Rightarrow> string \<Rightarrow> string \<Rightarrow> URL" where
  "mkURL h og hn p q f =
     \<lparr>href = h, origin = og, hostname = hn, pathname = p, search = q, hash = f\<rparr>"

definition proxy_local :: "string \<Rightarrow> URL" where
  "proxy_local q =
     mkURL (''http://proxy.local/'' @ q) ''http://proxy.local'' ''proxy.local'' ''/'' q []"

definition URL_table :: "((string \<times> string option) \<times> URL) list" where
  "URL_table =
     [((''/'', Some ''http://proxy.local''), proxy_local []),
      ((''/?url='', Some ''http://proxy.local''), proxy_local ''?url=''),
      ((''/?url=nonsense'', Some ''http://proxy.local''), proxy_local ''?url=nonsense''),
      ((''/?url=mailto:a@b'', Some ''http://proxy.local''), proxy_local ''?url=mailto:a@b''),
      ((''/?url=https://example.com/x'', Some ''http://proxy.local''),
         proxy_local ''?url=https://example.com/x''),
      ((''/?url=https://evil.example.com.attacker.net/x'', Some ''http://proxy.local''),
         proxy_local ''?url=https://evil.example.com.attacker.net/x''),
      ((''/proxy?url=wss://echo.example/chat?room=1'', Some ''http://proxy.local''),
         mkURL ''http://proxy.local/proxy?url=wss://echo.example/chat?room=1'' ''http://proxy.local''
           ''proxy.local'' ''/proxy'' ''?url=wss://echo.example/chat?room=1'' []),
      ((''mailto:a@b'', None), mkURL ''mailto:a@b'' ''null'' [] ''a@b'' [] []),
      ((''https://example.com/x'', None),
         mkURL ''https://example.com/x'' ''https://example.com'' ''example.com'' ''/x'' [] []),
      ((''https://evil.example.com.attacker.net/x'', None),
         mkURL ''https://evil.example.com.attacker.net/x'' ''https://evil.example.com.attacker.net''
           ''evil.example.com.attacker.net'' ''/x'' [] []),
      ((''wss://echo.example/chat?room=1'', None),
         mkURL ''wss://echo.example/chat?room=1'' ''wss://echo.example'' ''echo.example''
           ''/chat'' ''?room=1'' []),
      ((''/login?next=%2Fhome'', Some ''https://example.com''),
         mkURL ''https://example.com/login?next=%2Fhome'' ''https://example.com'' ''example.com''
           ''/login'' ''?next=%2Fhome'' []),
      ((''https://example.com/login?next=%2Fhome'', Some ''https://example.com''),
         mkURL ''https://example.com/login?next=%2Fhome'' ''https://example.com'' ''example.com''
           ''/login'' ''?next=%2Fhome'' [])]"

definition URL_samples :: URL_ctor where
  "URL_samples s b = map_of URL_table (s, b)"

text \<open>
  The results of Node's \<^verbatim>\<open>url.parse\<close> on the origins of the examples: the origin
  \<^verbatim>\<open>null\<close> has neither protocol nor host. No example reaches the redirect pass with
  equal hosts, so \<open>rehost\<close> is not used at any point.
\<close>

definition legacy_samples :: legacy_url where
  "legacy_samples =
     \<lparr>protocol_of = map_of
        [(''https://example.com'', ''https:''),
         (''https://evil.example.com.attacker.net'', ''https:''),
         (''wss://echo.example'', ''wss:'')],
      host_of = map_of
        [(''https://example.com'', ''example.com''),
         (''https://evil.example.com.attacker.net'', ''evil.example.com.attacker.net''),
         (''wss://echo.example'', ''echo.example'')],
      rehost = (\<lambda>loc h. loc)\<rparr>"

section \<open>Requests, upstreams and observations for the examples\<close>

text \<open>A client request for the examples, sent to the proxy as \<^verbatim>\<open>proxy.example\<close>.\<close>

definition client_request :: "string \<Rightarrow> request" where
  "client_request u =
     \<lparr>req_url = u, req_headers = [''host'' \<mapsto> ''proxy.example''], req_protocol = ''http'',
      targetOrigin = None, proto = None\<rparr>"

definition redirect_response :: "string \<Rightarrow> proxyRes" where
  "redirect_response loc =
     \<lparr>pr_statusCode = 302, pr_headers = [''location'' \<mapsto> loc], pr_setCookie = None,
      pr_body = []\<rparr>"

text \<open>An upstream that cannot be reached, and one that answers 200 with a fixed body.\<close>

definition unreachable :: upstream where
  "unreachable proxyReq = UpError ''connect ECONNREFUSED''"

definition ok_upstream :: "string \<Rightarrow> upstream" where
  "ok_upstream b proxyReq =
     UpResponse \<lparr>pr_statusCode = 200, pr_headers = [''content-type'' \<mapsto> ''text/html''],
                 pr_setCookie = None, pr_body = b\<rparr>"

text \<open>An upstream that forbids framing and sets a content security policy.\<close>

definition csp_upstream :: upstream where
  "csp_upstream proxyReq =
     UpResponse \<lparr>pr_statusCode = 200,
                 pr_headers = [''content-type'' \<mapsto> ''text/html'',
                               ''content-security-policy'' \<mapsto> ''frame-ancestors none'',
                               ''content-security-policy-report-only'' \<mapsto> ''script-src none'',
                               ''x-frame-options'' \<mapsto> ''DENY''],
                 pr_setCookie = None, pr_body = ''<p>hello</p>''\<rparr>"

text \<open>What a run of the \<^verbatim>\<open>/proxy\<close> handler shows: the response, and the requests sent upstream.\<close>

definition responded :: "exn + response \<times> outgoing list \<Rightarrow> response option" where
  "responded r = (case r of Inl e \<Rightarrow> None | Inr (res, outs) \<Rightarrow> Some res)"

definition response_header :: "string \<Rightarrow> exn + response \<times> outgoing list \<Rightarrow> string option option" where
  "response_header name r = map_option (\<lambda>res. res_headers res name) (responded r)"

definition contacted :: "exn + response \<times> outgoing list \<Rightarrow> outgoing list" where
  "contacted r = (case r of Inl e \<Rightarrow> [] | Inr (res, outs) \<Rightarrow> outs)"

definition sent_targets :: "exn + response \<times> outgoing list \<Rightarrow> string list" where
  "sent_targets r = map out_target (contacted r)"

definition sent_paths :: "exn + response \<times> outgoing list \<Rightarrow> string list" where
  "sent_paths r = map out_path (contacted r)"

definition sent_header :: "string \<Rightarrow> exn + response \<times> outgoing list \<Rightarrow> string option list" where
  "sent_header name r = map (\<lambda>p. out_headers p name) (contacted r)"

text \<open>What a run of the upgrade handler shows: the client socket, and target and path relayed.\<close>

definition new_socket :: socket where
  "new_socket = \<lparr>sock_written = [], destroyed = False\<rparr>"

definition client_socket :: "exn + socket \<times> outgoing option \<Rightarrow> socket option" where
  "client_socket r = (case r of Inl e \<Rightarrow> None | Inr (sock, d) \<Rightarrow> Some sock)"

definition relayed :: "exn + socket \<times> outgoing option \<Rightarrow> (string \<times> string) option" where
  "relayed r =
     (case r of
        Inl e \<Rightarrow> None
      | Inr (sock, None) \<Rightarrow> None
      | Inr (sock, Some handshake) \<Rightarrow> Some (out_target handshake, out_path handshake))"

definition handshake_header :: "string \<Rightarrow> exn + socket \<times> outgoing option \<Rightarrow> string option option" where
  "handshake_header name r =
     (case r of
        Inl e \<Rightarrow> None
      | Inr (sock, None) \<Rightarrow> None
      | Inr (sock, Some handshake) \<Rightarrow> Some (out_headers handshake name))"

text \<open>An upgrade request of a page served by the proxy.\<close>

definition upgrade_request :: "string \<Rightarrow> request" where
  "upgrade_request u =
     \<lparr>req_url = u,
      req_headers = [''host'' \<mapsto> ''proxy.example'', ''upgrade'' \<mapsto> ''websocket'',
                     ''origin'' \<mapsto> ''http://proxy.example''],
      req_protocol = ''http'', targetOrigin = None, proto = None\<rparr>"

text \<open>The cookie the \<^verbatim>\<open>/proxy\<close> handler sets for a target with the origin \<open>og\<close>.\<close>

definition last_target_cookie :: "string \<Rightarrow> cookie" where
  "last_target_cookie og =
     \<lparr>ck_name = ''last_target'', ck_value = og, ck_httpOnly = False, ck_sameSite = ''Lax'',
      ck_maxAge = 14 * 24 * 60 * 60 * 1000\<rparr>"

section \<open>Percent-encoding round trip\<close>

lemma nibble_cases: "n < 16 \<Longrightarrow> n \<in> {0, 1, 2, 3, 4, 5, 6, 7, 8, 9, 10, 11, 12, 13, 14, 15 :: nat}"
  by simp arith

lemma hex_val_hexdigit: "n < 16 \<Longrightarrow> hex_val (hexdigit n) = Some n"
  using nibble_cases [of n] by (auto simp: hex_val_def hexdigit_def)

lemma percent_decode_plain:
  "c \<noteq> CHR ''%'' \<Longrightarrow> percent_decode (c # r) = c # percent_decode r"
  by (cases r rule: percent_decode.cases) (auto split: list.splits)

lemma of_char_div16: "(of_char c :: nat) div 16 < 16"
proof -
  have "(of_char c :: nat) < 256" by simp
  then show ?thesis by arith
qed

lemma percent_decode_encoded_byte:
  "percent_decode (percent_encode_byte c @ r) = c # percent_decode r"
  by (simp add: percent_encode_byte_def hex_val_hexdigit of_char_div16)

lemma encodeURIComponent_Cons:
  "encodeURIComponent (c # s) =
     (if unreserved c then [c] else percent_encode_byte c) @ encodeURIComponent s"
  by (simp add: encodeURIComponent_def)

lemma percent_decode_encodeURIComponent:
  "percent_decode (encodeURIComponent s @ r) = s @ percent_decode r"
proof (induction s)
  case Nil
  then show ?case by (simp add: encodeURIComponent_def)
next
  case (Cons c s)
  show ?case
  proof (cases "unreserved c")
    case True
    then have "c \<noteq> CHR ''%''" by (auto simp: unreserved_def is_alnum_def)
    with True Cons show ?thesis by (simp add: encodeURIComponent_Cons percent_decode_plain)
  next
    case False
    with Cons show ?thesis by (simp add: encodeURIComponent_Cons percent_decode_encoded_byte)
  qed
qed

lemma hexdigit_safe: "n < 16 \<Longrightarrow> enc_safe (hexdigit n)"
  using nibble_cases [of n] by (auto simp: enc_safe_def hexdigit_def)

lemma unreserved_safe: "unreserved c \<Longrightarrow> enc_safe c"
  by (auto simp: unreserved_def is_alnum_def enc_safe_def)

lemma encodeURIComponent_safe: "c \<in> set (encodeURIComponent s) \<Longrightarrow> enc_safe c"
proof (induction s)
  case Nil
  then show ?case by (simp add: encodeURIComponent_def)
next
  case (Cons a s)
  have "enc_safe CHR ''%''" by (simp add: enc_safe_def)
  moreover have "enc_safe (hexdigit ((of_char a :: nat) div 16))"
    and "enc_safe (hexdigit ((of_char a :: nat) mod 16))"
    by (simp_all add: hexdigit_safe of_char_div16)
  ultimately show ?case using Cons
    by (auto simp: encodeURIComponent_Cons percent_encode_byte_def unreserved_safe split: if_splits)
qed

lemma split_on_absent: "d \<notin> set s \<Longrightarrow> split_on d s = [s]"
  by (induction s) auto

lemma plus_to_space_absent: "CHR ''+'' \<notin> set s \<Longrightarrow> plus_to_space s = s"
  by (induction s) (auto simp: plus_to_space_def)

lemma form_decode_encodeURIComponent: "form_decode (encodeURIComponent s) = s"
proof -
  have "CHR ''+'' \<notin> set (encodeURIComponent s)"
    using encodeURIComponent_safe [of "CHR ''+''" s] by (auto simp: enc_safe_def)
  then show ?thesis
    using percent_decode_encodeURIComponent [of s "[]"]
    by (simp add: form_decode_def plus_to_space_absent)
qed

lemma extract_url_param_encoded:
  "extract_url_param (''/proxy?url='' @ encodeURIComponent s) = Some s"
proof -
  let ?e = "encodeURIComponent s"
  have safe: "\<And>c. c \<in> set ?e \<Longrightarrow> c \<notin> set ''&=+#''"
    using encodeURIComponent_safe by (simp add: enc_safe_def)
  have nohash: "takeWhile (\<lambda>c. c \<noteq> CHR ''#'') (''url='' @ ?e) = ''url='' @ ?e"
    using safe by (auto simp: takeWhile_eq_all_conv)
  have noamp: "CHR ''&'' \<notin> set (''url='' @ ?e)" using safe by auto
  have q: "takeWhile (\<lambda>c. c \<noteq> CHR ''#'')
             (drop 1 (dropWhile (\<lambda>c. c \<noteq> CHR ''?'') (''/proxy?url='' @ ?e))) = ''url='' @ ?e"
    using nohash by simp
  have name: "form_decode ''url'' = ''url''"
    by (simp add: form_decode_def plus_to_space_def)
  have pair: "parse_pair (''url='' @ ?e) = (''url'', s)"
    by (simp add: parse_pair_def form_decode_encodeURIComponent name)
  have "urlencoded_parse (''url='' @ ?e) = [(''url'', s)]"
    unfolding urlencoded_parse_def split_on_absent [OF noamp] by (simp add: pair [simplified])
  then show ?thesis
    unfolding extract_url_param_def q by simp
qed

section \<open>Resolution at the sample points\<close>

lemma parseTargetFromReq_cases:
  "parseTargetFromReq U fullUrl base =
     (case U fullUrl (Some base) of
        None \<Rightarrow> Inl TypeError
      | Some r \<Rightarrow>
          (case searchParams_get r ''url'' of
             None \<Rightarrow> Inr None
           | Some raw \<Rightarrow> if raw = [] then Inr None else Inr (U raw None)))"
  by (simp add: parseTargetFromReq_def)

lemma res_statusCode_send: "res_statusCode (send (status res code) b) = code"
  by (simp add: send_def status_def res_end_def)

lemmas sample_eval = URL_samples_def URL_table_def proxy_local_def mkURL_def
  searchParams_get_def urlencoded_parse_def parse_pair_def form_decode_def plus_to_space_def
  hex_val_def

lemma resolve_mailto:
  "parseTargetFromReq URL_samples ''/?url=mailto:a@b'' ''http://proxy.local'' =
     Inr (Some (mkURL ''mailto:a@b'' ''null'' [] ''a@b'' [] []))"
  by (simp add: parseTargetFromReq_def sample_eval)

lemma resolve_example:
  "parseTargetFromReq URL_samples ''/?url=https://example.com/x'' ''http://proxy.local'' =
     Inr (Some (mkURL ''https://example.com/x'' ''https://example.com'' ''example.com''
                  ''/x'' [] []))"
  by (simp add: parseTargetFromReq_def sample_eval)

lemma resolve_evil:
  "parseTargetFromReq URL_samples ''/?url=https://evil.example.com.attacker.net/x''
       ''http://proxy.local'' =
     Inr (Some (mkURL ''https://evil.example.com.attacker.net/x''
                  ''https://evil.example.com.attacker.net'' ''evil.example.com.attacker.net''
                  ''/x'' [] []))"
  by (simp add: parseTargetFromReq_def sample_eval)

lemma resolve_echo:
  "parseTargetFromReq URL_samples ''/proxy?url=wss://echo.example/chat?room=1''
       ''http://proxy.local'' =
     Inr (Some (mkURL ''wss://echo.example/chat?room=1'' ''wss://echo.example'' ''echo.example''
                  ''/chat'' ''?room=1'' []))"
  by (simp add: parseTargetFromReq_def sample_eval)

lemma resolve_missing:
  "parseTargetFromReq URL_samples ''/'' ''http://proxy.local'' = Inr None"
  "parseTargetFromReq URL_samples ''/?url='' ''http://proxy.local'' = Inr None"
  "parseTargetFromReq URL_samples ''/?url=nonsense'' ''http://proxy.local'' = Inr None"
  by (simp_all add: parseTargetFromReq_def sample_eval)

lemma samples_login:
  "URL_samples ''/login?next=%2Fhome'' (Some ''https://example.com'') =
     Some (mkURL ''https://example.com/login?next=%2Fhome'' ''https://example.com''
             ''example.com'' ''/login'' ''?next=%2Fhome'' [])"
  "URL_samples ''https://example.com/login?next=%2Fhome'' (Some ''https://example.com'') =
     Some (mkURL ''https://example.com/login?next=%2Fhome'' ''https://example.com''
             ''example.com'' ''/login'' ''?next=%2Fhome'' [])"
  "URL_samples ''http://['' (Some ''https://example.com'') = None"
  by (simp_all add: URL_samples_def URL_table_def)

lemma enc_login:
  "encodeURIComponent ''https://example.com/login?next=%2Fhome'' =
     ''https%3A%2F%2Fexample.com%2Flogin%3Fnext%3D%252Fhome''"
  by (simp add: encodeURIComponent_def unreserved_def is_alnum_def percent_encode_byte_def
      hexdigit_def)

section \<open>The response hook\<close>

lemma on_proxyRes_headers_cases:
  "pr_headers (on_proxyRes U pr req) k =
     (if k \<in> {''content-security-policy'', ''content-security-policy-report-only'',
               ''x-frame-options''}
      then None
      else if k = ''location'' then
        (case pr_headers pr ''location'' of
           None \<Rightarrow> None
         | Some loc \<Rightarrow>
             if loc = [] then Some loc
             else (case U loc (if truthy (targetOrigin req) then targetOrigin req else None) of
                     None \<Rightarrow> Some loc
                   | Some absolute \<Rightarrow> Some (''/proxy?url='' @ encodeURIComponent (href absolute))))
      else pr_headers pr k)"
  by (simp add: on_proxyRes_def Let_def split: option.splits)

text \<open>A response without \<^verbatim>\<open>Location\<close>, or with an empty one, keeps it as it is.\<close>

lemma location_absent_or_empty:
  "pr_headers pr ''location'' = None \<Longrightarrow> pr_headers (on_proxyRes U pr req) ''location'' = None"
  "pr_headers pr ''location'' = Some [] \<Longrightarrow>
     pr_headers (on_proxyRes U pr req) ''location'' = Some []"
  by (simp_all add: on_proxyRes_headers_cases)

text \<open>
  Claim C1. When the upstream response carries a \<^verbatim>\<open>Location\<close> (a non-empty value, relative
  or absolute) and the request has its upstream origin \<open>org\<close>: if the constructor rejects
  the value against \<open>org\<close> the header stays as it was; if it resolves to \<open>u\<close>, the header
  becomes \<^verbatim>\<open>/proxy?url=\<close> followed by the encoded serialisation of \<open>u\<close>, the \<^verbatim>\<open>url\<close>
  parameter of that value decodes to the serialisation of \<open>u\<close>, and resolving what was
  decoded against \<open>org\<close> gives \<open>u\<close> again, for a constructor that parses its own
  serialisation of \<open>u\<close> back to \<open>u\<close>.
\<close>

theorem location_rewrite_roundtrip:
  assumes "pr_headers pr ''location'' = Some loc" and "loc \<noteq> []"
    and "targetOrigin req = Some org" and "org \<noteq> []"
  shows "(U loc (Some org) = None \<longrightarrow>
            pr_headers (on_proxyRes U pr req) ''location'' = Some loc) \<and>
         (\<forall>u. U loc (Some org) = Some u \<longrightarrow>
            pr_headers (on_proxyRes U pr req) ''location'' =
              Some (''/proxy?url='' @ encodeURIComponent (href u)) \<and>
            extract_url_param (''/proxy?url='' @ encodeURIComponent (href u)) = Some (href u) \<and>
            (U (href u) (Some org) = Some u \<longrightarrow>
               Option.bind (extract_url_param (''/proxy?url='' @ encodeURIComponent (href u)))
                 (\<lambda>t. U t (Some org)) = Some u))"
  using assms
  by (simp add: on_proxyRes_headers_cases truthy_def extract_url_param_encoded [simplified])

text \<open>
  The theorem at the relative redirect \<^verbatim>\<open>/login?next=%2Fhome\<close> from \<^verbatim>\<open>https://example.com\<close>,
  and at the malformed \<^verbatim>\<open>http://[\<close>, which stays as it is.
\<close>

theorem location_rewrite_roundtrip_witness:
  "pr_headers (on_proxyRes URL_samples (redirect_response ''/login?next=%2Fhome'')
       ((client_request ''/login'')\<lparr>targetOrigin := Some ''https://example.com''\<rparr>))
     ''location'' =
     Some ''/proxy?url=https%3A%2F%2Fexample.com%2Flogin%3Fnext%3D%252Fhome'' \<and>
   extract_url_param ''/proxy?url=https%3A%2F%2Fexample.com%2Flogin%3Fnext%3D%252Fhome'' =
     Some ''https://example.com/login?next=%2Fhome'' \<and>
   Option.bind
       (extract_url_param ''/proxy?url=https%3A%2F%2Fexample.com%2Flogin%3Fnext%3D%252Fhome'')
       (\<lambda>t. URL_samples t (Some ''https://example.com'')) =
     URL_samples ''/login?next=%2Fhome'' (Some ''https://example.com'') \<and>
   pr_headers (on_proxyRes URL_samples (redirect_response ''http://['')
       ((client_request ''/login'')\<lparr>targetOrigin := Some ''https://example.com''\<rparr>))
     ''location'' =
     Some ''http://[''"
proof -
  let ?req = "(client_request ''/login'')\<lparr>targetOrigin := Some ''https://example.com''\<rparr>"
  have r: "targetOrigin ?req = Some ''https://example.com''" "''https://example.com'' \<noteq> []"
    by simp_all
  have a: "pr_headers (redirect_response ''/login?next=%2Fhome'') ''location'' =
             Some ''/login?next=%2Fhome''"
    "''/login?next=%2Fhome'' \<noteq> []"
    by (simp_all add: redirect_response_def)
  have b: "pr_headers (redirect_response ''http://['') ''location'' = Some ''http://[''"
    "''http://['' \<noteq> []"
    by (simp_all add: redirect_response_def)
  show ?thesis
    using location_rewrite_roundtrip [OF a r, of URL_samples]
      location_rewrite_roundtrip [OF b r, of URL_samples]
    by (simp add: samples_login mkURL_def enc_login)
qed

lemma relay_fresh_headers:
  "res_headers res k = None \<Longrightarrow> res_headers (relay pr res) k = pr_headers pr k"
  by (simp add: relay_def map_add_def split: option.splits)

text \<open>The redirect pass of the library changes the \<^verbatim>\<open>Location\<close> header and nothing else.\<close>

lemma setRedirectHostRewrite_headers:
  "k \<noteq> ''location'' \<Longrightarrow>
   pr_headers (setRedirectHostRewrite L req t pr) k = pr_headers pr k"
  by (simp add: setRedirectHostRewrite_def split: option.splits)

lemma setRedirectHostRewrite_other_host:
  "pr_headers pr ''location'' = Some loc \<Longrightarrow> host_of L t \<noteq> host_of L loc \<Longrightarrow>
   setRedirectHostRewrite L req t pr = pr"
  by (simp add: setRedirectHostRewrite_def)

lemma redirectRegex_test_examples:
  "redirectRegex_test 201 \<and> redirectRegex_test 301 \<and> redirectRegex_test 302 \<and>
   redirectRegex_test 307 \<and> redirectRegex_test 308 \<and> \<not> redirectRegex_test 200 \<and>
   \<not> redirectRegex_test 303 \<and> \<not> redirectRegex_test 404"
  by (simp add: redirectRegex_test_def starts_with_201.simps)

lemma setRedirectHostRewrite_statusCode:
  "pr_statusCode (setRedirectHostRewrite L req t pr) = pr_statusCode pr"
  by (simp add: setRedirectHostRewrite_def split: option.splits)

lemma setRedirectHostRewrite_body:
  "pr_body (setRedirectHostRewrite L req t pr) = pr_body pr"
  by (simp add: setRedirectHostRewrite_def split: option.splits)

lemma setRedirectHostRewrite_setCookie:
  "pr_setCookie (setRedirectHostRewrite L req t pr) = pr_setCookie pr"
  by (simp add: setRedirectHostRewrite_def split: option.splits)

text \<open>\<^verbatim>\<open>proxy.web\<close> either throws before anything is sent or runs the passes.\<close>

lemma proxy_web_Inr:
  "proxy_web L U up req res t = Inr v \<longleftrightarrow>
   protocol_of L t \<noteq> None \<and> v = web_stream L U up req res t"
  by (auto simp: proxy_web_def)

lemma proxy_web_Inl:
  "proxy_web L U up req res t = Inl e \<longleftrightarrow> protocol_of L t = None"
  by (cases e) (auto simp: proxy_web_def)

lemma web_stream_sent:
  "snd (web_stream L U up req res t) =
     [on_proxyReq \<lparr>out_target = t, out_path = req_url req, out_headers = req_headers req\<rparr> req]"
  by (simp add: web_stream_def Let_def split: upstream_result.splits)

text \<open>
  Claim C3. Whatever the upstream response and the request are, the three headers are absent
  after the response hook; and whatever the \<^verbatim>\<open>/proxy\<close> handler answers to a request, be it
  the relayed upstream response or an error of its own, the three headers are absent from
  the response to the client.
\<close>

theorem csp_headers_removed:
  "pr_headers (on_proxyRes U pr req) ''content-security-policy'' = None \<and>
   pr_headers (on_proxyRes U pr req) ''content-security-policy-report-only'' = None \<and>
   pr_headers (on_proxyRes U pr req) ''x-frame-options'' = None \<and>
   (\<forall>res' outs. proxy_handler L U al up req' fresh_response = Inr (res', outs) \<longrightarrow>
      res_headers res' ''content-security-policy'' = None \<and>
      res_headers res' ''content-security-policy-report-only'' = None \<and>
      res_headers res' ''x-frame-options'' = None)"
proof -
  have hook: "pr_headers (on_proxyRes U pr req) ''content-security-policy'' = None \<and>
   pr_headers (on_proxyRes U pr req) ''content-security-policy-report-only'' = None \<and>
   pr_headers (on_proxyRes U pr req) ''x-frame-options'' = None" for pr req
    by (simp add: on_proxyRes_headers_cases)
  have web: "res_headers (fst (web_stream L U up r (res_cookie fresh_response c) t)) k = None"
    if "k \<in> {''content-security-policy'', ''content-security-policy-report-only'', ''x-frame-options''}"
    for r c t k
  proof (cases "up (on_proxyReq \<lparr>out_target = t, out_path = req_url r, out_headers = req_headers r\<rparr> r)")
    case (UpResponse pr)
    from that have k: "k \<noteq> ''location''" by auto
    have "res_headers (res_cookie fresh_response c) k = None"
      by (simp add: res_cookie_def fresh_response_def)
    then have "res_headers (relay (setRedirectHostRewrite L r t (on_proxyRes U pr r))
                  (res_cookie fresh_response c)) k =
        pr_headers (setRedirectHostRewrite L r t (on_proxyRes U pr r)) k"
      by (rule relay_fresh_headers)
    also have "\<dots> = pr_headers (on_proxyRes U pr r) k"
      using k by (rule setRedirectHostRewrite_headers)
    finally show ?thesis
      using UpResponse hook [of pr r] that by (auto simp: web_stream_def Let_def)
  next
    case (UpError err)
    with that show ?thesis
      by (auto simp: web_stream_def Let_def on_error_def res_end_def writeHead_def res_cookie_def
          fresh_response_def)
  qed
  have handler: "res_headers res' k = None"
    if "proxy_handler L U al up req' fresh_response = Inr (res', outs)"
      and "k \<in> {''content-security-policy'', ''content-security-policy-report-only'', ''x-frame-options''}"
    for res' outs k
  proof (cases "parseTargetFromReq U (req_url req') ''http://proxy.local''")
    case (Inl e)
    with that(1) show ?thesis by (simp add: proxy_handler_def)
  next
    case (Inr v)
    show ?thesis
    proof (cases v)
      case None
      with Inr that(1) show ?thesis
        by (auto simp: proxy_handler_def send_def status_def res_end_def fresh_response_def)
    next
      case (Some t)
      show ?thesis
      proof (cases "allowedHost al (hostname t)")
        case False
        with Inr Some that(1) show ?thesis
          by (auto simp: proxy_handler_def send_def status_def res_end_def fresh_response_def)
      next
        case True
        with Inr Some that(1) obtain r c where
          "proxy_web L U up r (res_cookie fresh_response c) (origin t) = Inr (res', outs)"
          by (auto simp: proxy_handler_def Let_def)
        then have "web_stream L U up r (res_cookie fresh_response c) (origin t) = (res', outs)"
          by (simp add: proxy_web_Inr)
        then have "res' = fst (web_stream L U up r (res_cookie fresh_response c) (origin t))"
          by (metis fst_conv)
        with web [OF that(2)] show ?thesis by simp
      qed
    qed
  qed
  from hook [of pr req] handler show ?thesis by blast
qed

text \<open>The theorem at an upstream that sends all three headers.\<close>

theorem csp_headers_removed_witness:
  "response_header ''content-security-policy''
     (proxy_handler legacy_samples URL_samples ALLOWLIST csp_upstream
        (client_request ''/?url=https://example.com/x'') fresh_response) = Some None \<and>
   response_header ''content-security-policy-report-only''
     (proxy_handler legacy_samples URL_samples ALLOWLIST csp_upstream
        (client_request ''/?url=https://example.com/x'') fresh_response) = Some None \<and>
   response_header ''x-frame-options''
     (proxy_handler legacy_samples URL_samples ALLOWLIST csp_upstream
        (client_request ''/?url=https://example.com/x'') fresh_response) = Some None \<and>
   response_header ''content-type''
     (proxy_handler legacy_samples URL_samples ALLOWLIST csp_upstream
        (client_request ''/?url=https://example.com/x'') fresh_response) = Some (Some ''text/html'')"
proof -
  let ?run = "proxy_handler legacy_samples URL_samples ALLOWLIST csp_upstream
        (client_request ''/?url=https://example.com/x'') fresh_response"
  have r: "parseTargetFromReq URL_samples (req_url (client_request ''/?url=https://example.com/x''))
             ''http://proxy.local'' =
           Inr (Some (mkURL ''https://example.com/x'' ''https://example.com'' ''example.com''
                        ''/x'' [] []))"
    by (simp add: client_request_def resolve_example)
  obtain res' outs where run: "?run = Inr (res', outs)"
    using r
    by (simp add: proxy_handler_def ALLOWLIST_def allowedHost_def proxy_web_def web_stream_def
        legacy_samples_def mkURL_def csp_upstream_def Let_def)
  have ct: "res_headers res' ''content-type'' = Some ''text/html''"
    using run r
    by (auto simp: proxy_handler_def ALLOWLIST_def allowedHost_def proxy_web_def web_stream_def
        legacy_samples_def mkURL_def csp_upstream_def relay_def setRedirectHostRewrite_headers
        on_proxyRes_headers_cases res_cookie_def fresh_response_def map_add_def Let_def)
  from csp_headers_removed [of URL_samples _ _ legacy_samples ALLOWLIST csp_upstream
      "client_request ''/?url=https://example.com/x''"] run ct
  show ?thesis
    by (simp add: response_header_def responded_def)
qed

lemma on_proxyRes_statusCode: "pr_statusCode (on_proxyRes U pr req) = pr_statusCode pr"
  by (simp add: on_proxyRes_def Let_def)

lemma on_proxyRes_body: "pr_body (on_proxyRes U pr req) = pr_body pr"
  by (simp add: on_proxyRes_def Let_def)

section \<open>The cookie rewrite\<close>

lemma match_attr_Nil: "match_attr lit tail [] = None"
  by (simp add: match_attr_def)

lemma match_attr_not_semi: "c \<noteq> CHR '';'' \<Longrightarrow> match_attr lit tail (c # r) = None"
  by (simp add: match_attr_def)

lemma match_attr_semi:
  "match_attr lit tail (CHR '';'' # r) =
     (case span_ws 0 r of
        (w, r1) \<Rightarrow>
          if \<not> ci_prefix lit r1 then None
          else (let r2 = drop (length lit) r1
                in if tail
                   then Some (CHR '';'' # w @ take (length lit) r1 @
                                takeWhile (\<lambda>x. x \<noteq> CHR '';'') r2,
                              dropWhile (\<lambda>x. x \<noteq> CHR '';'') r2)
                   else Some (CHR '';'' # w @ take (length lit) r1, r2)))"
  by (simp add: match_attr_def)

lemmas cookie_eval = rewrite_cookie_def js_replace_def js_test_def match_attr_Nil
  match_attr_not_semi
  match_attr_semi ci_prefix_def lower_code_def js_string_def ws3_def Let_def

lemma span_ws_append: "span_ws k r = (w, r1) \<Longrightarrow> r = w @ r1"
  by (induction k r arbitrary: w r1 rule: span_ws.induct)
     (auto simp: Let_def split: prod.splits if_splits)

lemma match_attr_Some:
  assumes "match_attr lit tail s = Some (x, r)"
  shows "s = x @ r \<and> (\<exists>x'. x = CHR '';'' # x')"
proof (cases s)
  case Nil
  with assms show ?thesis by (simp add: match_attr_def)
next
  case (Cons c r0)
  with assms have c: "c = CHR '';''" by (auto simp: match_attr_def split: if_splits)
  obtain w r1 where sp: "span_ws 0 r0 = (w, r1)" by (cases "span_ws 0 r0")
  then have r0: "r0 = w @ r1" by (rule span_ws_append)
  have split3: "take (length lit) r1 @ takeWhile (\<lambda>x. x \<noteq> CHR '';'') (drop (length lit) r1) @
      dropWhile (\<lambda>x. x \<noteq> CHR '';'') (drop (length lit) r1) = r1"
    by simp
  from assms Cons c sp r0 split3 show ?thesis
    by (auto simp: match_attr_semi Let_def split: if_splits)
qed

lemma regex_search_Some:
  "regex_search (match_attr lit tail) s = Some (p, x, r) \<Longrightarrow>
     s = p @ x @ r \<and> (\<exists>x'. x = CHR '';'' # x')"
proof (induction s arbitrary: p)
  case Nil
  then show ?case by (simp add: match_attr_Nil)
next
  case (Cons c cs)
  show ?case
  proof (cases "match_attr lit tail (c # cs)")
    case None
    with Cons.prems obtain p' where "regex_search (match_attr lit tail) cs = Some (p', x, r)" "p = c # p'"
      by auto
    with Cons.IH [of p'] show ?thesis by simp
  next
    case (Some a)
    with Cons.prems have "match_attr lit tail (c # cs) = Some (x, r)" "p = []"
      by (auto split: prod.splits)
    with match_attr_Some [of lit tail "c # cs" x r] show ?thesis by simp
  qed
qed

lemma takeWhile_semi:
  "takeWhile (\<lambda>x. x \<noteq> CHR '';'') (p @ CHR '';'' # a) = takeWhile (\<lambda>x. x \<noteq> CHR '';'') p"
  by (induction p) auto

lemma cookie_pair_append_attr: "cookie_pair (c @ CHR '';'' # a) = cookie_pair c"
  by (simp add: cookie_pair_def takeWhile_semi)

lemma cookie_pair_js_replace:
  "cookie_pair (js_replace (match_attr lit tail) c (CHR '';'' # CHR '' '' # repl)) = cookie_pair c"
proof (cases "regex_search (match_attr lit tail) c")
  case None
  then show ?thesis by (simp add: js_replace_def)
next
  case (Some a)
  obtain p x r where a: "a = (p, x, r)" by (cases a)
  with Some regex_search_Some [of lit tail c p x r] obtain x' where c: "c = p @ CHR '';'' # x' @ r"
    by auto
  have "js_replace (match_attr lit tail) c (CHR '';'' # CHR '' '' # repl) =
      p @ CHR '';'' # get_substitution x p r (CHR '' '' # repl) @ r"
    using Some a by (simp add: js_replace_def)
  then show ?thesis
    by (simp add: cookie_pair_append_attr c)
qed

text \<open>The name-value pair of a cookie is never altered.\<close>

lemma rewrite_cookie_keeps_pair: "cookie_pair (rewrite_cookie host c) = cookie_pair c"
proof -
  have "cookie_pair (js_replace (match_attr ''Domain='' True) c (''; Domain='' @ js_string host)) = cookie_pair c"
    using cookie_pair_js_replace [of "''Domain=''" True c "''Domain='' @ js_string host"] by simp
  then show ?thesis
    using cookie_pair_append_attr [of _ "'' SameSite=None''"] cookie_pair_append_attr [of _ "'' Secure''"]
    by (simp add: rewrite_cookie_def Let_def)
qed

lemma regex_search_suffix_match: "m t \<noteq> None \<Longrightarrow> regex_search m (s @ t) \<noteq> None"
proof (induction s)
  case Nil
  then show ?case by (cases t) (auto split: option.splits)
next
  case (Cons c s)
  then show ?case by (auto split: option.splits)
qed

lemma ws3_ascii: "b0 < 128 \<Longrightarrow> \<not> ws3 b0 b1 b2"
  by (simp add: ws3_def)

lemma ws_len_ascii:
  assumes "(of_char a :: nat) < 128" and "(of_char a :: nat) \<notin> {9, 10, 11, 12, 13, 32}"
  shows "ws_len (a # r) = 0"
proof -
  from assms(1) have n: "(of_char a :: nat) \<noteq> 0xC2" by simp
  show ?thesis
  proof (cases r)
    case Nil
    with assms(2) show ?thesis by (simp add: Let_def)
  next
    case (Cons c1 r')
    show ?thesis
    proof (cases r')
      case Nil
      with Cons assms(2) n show ?thesis by (simp add: Let_def)
    next
      case (Cons c2 r'')
      with \<open>r = c1 # r'\<close> assms(2) n ws3_ascii [OF assms(1)] show ?thesis by (simp add: Let_def)
    qed
  qed
qed

lemma ws_len_append:
  assumes "0 < ws_len s"
  shows "ws_len (s @ t) = ws_len s"
proof (cases s)
  case Nil
  with assms show ?thesis by simp
next
  case s1: (Cons c0 r)
  show ?thesis
  proof (cases "(of_char c0 :: nat) \<in> {9, 10, 11, 12, 13, 32}")
    case True
    with s1 show ?thesis by (simp add: Let_def)
  next
    case nws: False
    show ?thesis
    proof (cases r)
      case Nil
      with s1 nws assms show ?thesis by (simp add: Let_def)
    next
      case s2: (Cons c1 r')
      show ?thesis
      proof (cases "(of_char c0 :: nat) = 0xC2 \<and> (of_char c1 :: nat) = 0xA0")
        case True
        with s1 s2 nws show ?thesis by (simp add: Let_def)
      next
        case n2: False
        show ?thesis
        proof (cases r')
          case Nil
          with s1 s2 nws n2 assms show ?thesis by (auto simp: Let_def)
        next
          case (Cons c2 r'')
          with s1 s2 nws n2 show ?thesis by (auto simp: Let_def)
        qed
      qed
    qed
  qed
qed

lemma span_ws_extend:
  "span_ws k r = (w, a # r1) \<Longrightarrow> ws_len (a # r1 @ t) = 0 \<Longrightarrow> span_ws k (r @ t) = (w, a # r1 @ t)"
proof (induction k r arbitrary: w rule: span_ws.induct)
  case (1 k)
  then show ?case by simp
next
  case (2 k c cs)
  then show ?case by (auto split: prod.splits)
next
  case (3 c cs)
  show ?case
  proof (cases "ws_len (c # cs) = 0")
    case True
    with "3.prems" show ?thesis by (simp add: Let_def)
  next
    case False
    then have n: "ws_len ((c # cs) @ t) = ws_len (c # cs)"
      using ws_len_append [of "c # cs" t] by simp
    obtain w' r' where sp: "span_ws (ws_len (c # cs) - 1) cs = (w', r')"
      by (cases "span_ws (ws_len (c # cs) - 1) cs")
    with "3.prems"(1) False have eq: "w = c # w'" "r' = a # r1"
      by (simp_all add: Let_def)
    from "3.IH" [OF refl False, of w'] sp eq "3.prems"(2)
    have "span_ws (ws_len (c # cs) - 1) (cs @ t) = (w', a # r1 @ t)" by simp
    with False n eq show ?thesis
      by (simp add: Let_def)
  qed
qed


lemma lower_s:
  "lower_code a = lower_code CHR ''S'' \<Longrightarrow> (of_char a :: nat) = 83 \<or> (of_char a :: nat) = 115"
  by (auto simp: lower_code_def Let_def split: if_splits)

lemma ws_len_s:
  assumes "lower_code a = lower_code CHR ''S''"
  shows "ws_len (a # r) = 0"
proof (rule ws_len_ascii)
  from lower_s [OF assms] show "(of_char a :: nat) < 128" by auto
  from lower_s [OF assms] show "(of_char a :: nat) \<notin> {9, 10, 11, 12, 13, 32}" by auto
qed

lemma match_samesite_extend:
  assumes "match_attr ''SameSite='' False s = Some (x, r)"
  shows "match_attr ''SameSite='' False (s @ t) = Some (x, r @ t)"
proof (cases s)
  case Nil
  with assms show ?thesis by (simp add: match_attr_Nil)
next
  case (Cons c r0)
  let ?lit = "''SameSite=''"
  from Cons assms have c: "c = CHR '';''" by (auto simp: match_attr_def split: if_splits)
  obtain w r1 where sp: "span_ws 0 r0 = (w, r1)" by (cases "span_ws 0 r0")
  from assms Cons c sp have ci: "ci_prefix ?lit r1"
    and xr: "x = CHR '';'' # w @ take (length ?lit) r1" "r = drop (length ?lit) r1"
    by (auto simp: match_attr_semi Let_def split: if_splits)
  from ci have len: "length ?lit \<le> length r1" by (simp add: ci_prefix_def)
  then obtain a r1' where r1: "r1 = a # r1'" by (cases r1) auto
  from ci r1 have low: "lower_code a = lower_code CHR ''S''" by (simp add: ci_prefix_def)
  have "ws_len (a # r1' @ t) = 0"
    using low by (rule ws_len_s)
  with sp r1 have sp': "span_ws 0 (r0 @ t) = (w, r1 @ t)"
    using span_ws_extend [of 0 r0 w a r1' t] by simp
  have ci': "ci_prefix ?lit (r1 @ t)"
    using ci len by (simp add: ci_prefix_def)
  show ?thesis
    using Cons c sp' ci' xr len by (simp add: match_attr_semi Let_def)
qed

lemma js_test_samesite_extend:
  "js_test (match_attr ''SameSite='' False) s \<Longrightarrow> js_test (match_attr ''SameSite='' False) (s @ t)"
proof (induction s)
  case Nil
  then show ?case by (simp add: js_test_def match_attr_Nil)
next
  case (Cons c s)
  show ?case
  proof (cases "match_attr ''SameSite='' False (c # s)")
    case None
    with Cons show ?thesis
      by (auto simp: js_test_def split: option.splits)
  next
    case (Some a)
    obtain x r where "a = (x, r)" by (cases a)
    with Some match_samesite_extend [of "c # s" x r t] show ?thesis
      by (simp add: js_test_def)
  qed
qed

text \<open>After the rewrite the patterns for \<^verbatim>\<open>SameSite=\<close> and \<^verbatim>\<open>Secure\<close> always match.\<close>

lemma rewrite_cookie_patterns_present:
  "js_test (match_attr ''SameSite='' False) (rewrite_cookie host c) \<and>
   js_test (match_attr ''Secure'' False) (rewrite_cookie host c)"
proof -
  let ?c1 = "js_replace (match_attr ''Domain='' True) c (''; Domain='' @ js_string host)"
  let ?c2 = "if \<not> js_test (match_attr ''SameSite='' False) ?c1 then ?c1 @ ''; SameSite=None'' else ?c1"
  have m1: "match_attr ''SameSite='' False ''; SameSite=None'' \<noteq> None"
    by (simp add: match_attr_semi ci_prefix_def lower_code_def ws3_def Let_def)
  have m2: "match_attr ''Secure'' False ''; Secure'' \<noteq> None"
    by (simp add: match_attr_semi ci_prefix_def lower_code_def ws3_def Let_def)
  have s2: "js_test (match_attr ''SameSite='' False) ?c2"
    using regex_search_suffix_match [where m = "match_attr ''SameSite='' False", OF m1, of ?c1]
    by (simp add: js_test_def)
  have s3: "js_test (match_attr ''SameSite='' False) (?c2 @ ''; Secure'')"
    using s2 by (rule js_test_samesite_extend)
  have t3: "js_test (match_attr ''Secure'' False) (?c2 @ ''; Secure'')"
    using regex_search_suffix_match [where m = "match_attr ''Secure'' False", OF m2, of ?c2]
    by (simp add: js_test_def)
  have "rewrite_cookie host c =
      (if \<not> js_test (match_attr ''Secure'' False) ?c2 then ?c2 @ ''; Secure'' else ?c2)"
    by (simp add: rewrite_cookie_def Let_def)
  then show ?thesis
    using s2 s3 t3 by (cases "js_test (match_attr ''Secure'' False) ?c2") simp_all
qed

lemma get_substitution_plain:
  "CHR ''$'' \<notin> set repl \<Longrightarrow> get_substitution x p r repl = repl"
proof (induction x p r repl rule: get_substitution.induct)
  case (1 matched pre post)
  then show ?case by simp
next
  case (2 matched pre post c)
  then show ?case by simp
next
  case (3 matched pre post c d r)
  from "3.prems" have c: "c \<noteq> CHR ''$''" and rest: "CHR ''$'' \<notin> set (d # r)" by auto
  from "3.IH"(1) [OF c rest] c show ?case by simp
qed

text \<open>
  For a host without \<^verbatim>\<open>$\<close>, the rewrite replaces the first match of the \<^verbatim>\<open>Domain\<close>
  pattern, keeps the text before and after it, and appends at most the two attributes.
\<close>

lemma rewrite_cookie_shape:
  assumes "CHR ''$'' \<notin> set (js_string host)"
  shows "\<exists>extra. (extra = [] \<or> extra = ''; SameSite=None'' \<or> extra = ''; Secure'' \<or>
                   extra = ''; SameSite=None; Secure'') \<and>
           rewrite_cookie host c =
             (case regex_search (match_attr ''Domain='' True) c of
                None \<Rightarrow> c
              | Some (p, x, r) \<Rightarrow> p @ ''; Domain='' @ js_string host @ r) @ extra"
proof -
  let ?repl = "''; Domain='' @ js_string host"
  let ?c1 = "case regex_search (match_attr ''Domain='' True) c of
                None \<Rightarrow> c
              | Some (p, x, r) \<Rightarrow> p @ ''; Domain='' @ js_string host @ r"
  have "CHR ''$'' \<notin> set ?repl" using assms by simp
  then have g: "\<And>x p r. get_substitution x p r ?repl = ?repl"
    by (rule get_substitution_plain)
  have c1: "js_replace (match_attr ''Domain='' True) c ?repl = ?c1"
    unfolding js_replace_def g by (simp split: option.splits)
  let ?a = "js_test (match_attr ''SameSite='' False) ?c1"
  let ?c2 = "if \<not> ?a then ?c1 @ ''; SameSite=None'' else ?c1"
  let ?b = "js_test (match_attr ''Secure'' False) ?c2"
  have r: "rewrite_cookie host c = (if \<not> ?b then ?c2 @ ''; Secure'' else ?c2)"
    unfolding rewrite_cookie_def c1 Let_def ..
  show ?thesis
  proof (cases ?a)
    case True
    note a = this
    show ?thesis
    proof (cases ?b)
      case True
      with a r have "rewrite_cookie host c = ?c1 @ []" by simp
      then show ?thesis by blast
    next
      case False
      with a r have "rewrite_cookie host c = ?c1 @ ''; Secure''" by simp
      then show ?thesis by blast
    qed
  next
    case False
    note a = this
    show ?thesis
    proof (cases ?b)
      case True
      with a r have "rewrite_cookie host c = ?c1 @ ''; SameSite=None''" by simp
      then show ?thesis by blast
    next
      case False
      with a r have "rewrite_cookie host c = ?c1 @ ''; SameSite=None; Secure''" by simp
      then show ?thesis by blast
    qed
  qed
qed

lemma rewrite_cookie_examples:
  "rewrite_cookie (Some ''proxy.example'')
       ''sid=1; path=/; domain=up.example; secure; samesite=lax'' =
     ''sid=1; path=/; Domain=proxy.example; secure; samesite=lax''"
  "rewrite_cookie (Some ''proxy.example'')
       ''sid=1; Expires=Wed, 21 Oct 2026 07:28:00 GMT; Path=/app'' =
     ''sid=1; Expires=Wed, 21 Oct 2026 07:28:00 GMT; Path=/app; SameSite=None; Secure''"
  by (simp_all add: cookie_eval)

text \<open>
  Claim C2, at the cookie \<^verbatim>\<open>sid=1; Domain=a.example; Domain=up.example\<close> sent through the
  proxy reached as \<^verbatim>\<open>proxy.example\<close>: the pattern is not global, so only the first
  \<^verbatim>\<open>Domain\<close> attribute is replaced, and the second one, which names the upstream, is
  still an attribute of the cookie after the rewrite.
\<close>

theorem rewrite_cookie_second_domain:
  "rewrite_cookie (Some ''proxy.example'') ''sid=1; Domain=a.example; Domain=up.example'' =
     ''sid=1; Domain=proxy.example; Domain=up.example; SameSite=None; Secure'' \<and>
   domain_attributes ''sid=1; Domain=proxy.example; Domain=up.example; SameSite=None; Secure'' =
     [''proxy.example'', ''up.example'']"
  by (simp add: cookie_eval domain_attributes_def cookie_attributes_def trim_def)

section \<open>Target resolution and the allowlist\<close>

text \<open>
  When the request URL parses: a \<^verbatim>\<open>url\<close> parameter that is absent or empty, or that the
  URL constructor rejects, is answered with status 400 and nothing is sent upstream.
\<close>

lemma missing_or_unparsable_target_400:
  assumes "U (req_url req) (Some ''http://proxy.local'') = Some r"
  shows "(searchParams_get r ''url'' = None \<or> searchParams_get r ''url'' = Some [] \<longrightarrow>
            (\<exists>res'. proxy_handler L U al up req res = Inr (res', []) \<and>
               res_statusCode res' = 400)) \<and>
         (\<forall>raw. searchParams_get r ''url'' = Some raw \<and> U raw None = None \<longrightarrow>
            (\<exists>res'. proxy_handler L U al up req res = Inr (res', []) \<and>
               res_statusCode res' = 400))"
  using assms
  by (auto simp: proxy_handler_def parseTargetFromReq_cases res_statusCode_send)

text \<open>
  A request URL the constructor rejects makes the handler throw, whatever the parameter:
  the first constructor call of \<^verbatim>\<open>parseTargetFromReq\<close> is outside its \<^verbatim>\<open>try\<close>.
\<close>

lemma unparsable_request_url_throws:
  "U (req_url req) (Some ''http://proxy.local'') = None \<Longrightarrow>
   proxy_handler L U al up req res = Inl TypeError"
  by (simp add: proxy_handler_def parseTargetFromReq_def)

text \<open>
  A value the constructor accepts is never answered with 400: the handler dispatches to
  its origin, or throws when that origin has no protocol.
\<close>

lemma parsed_target_not_400:
  assumes "parseTargetFromReq U (req_url req) ''http://proxy.local'' = Inr (Some t)"
    and "allowedHost al (hostname t)"
  shows "(protocol_of L (origin t) = None \<longrightarrow> proxy_handler L U al up req res = Inl TypeError) \<and>
         (protocol_of L (origin t) \<noteq> None \<longrightarrow>
            (\<exists>res' proxyReq. proxy_handler L U al up req res = Inr (res', [proxyReq]) \<and>
               out_target proxyReq = origin t))"
  using assms
  by (auto simp: proxy_handler_def Let_def proxy_web_def web_stream_def on_proxyReq_def
        setHeader_def
      split: upstream_result.splits)

lemma target_resolution_examples:
  "map_option res_statusCode
     (responded (proxy_handler legacy_samples URL_samples ALLOWLIST unreachable
        (client_request ''/'') fresh_response)) = Some 400 \<and>
   contacted (proxy_handler legacy_samples URL_samples ALLOWLIST unreachable
        (client_request ''/'') fresh_response) = [] \<and>
   map_option res_statusCode
     (responded (proxy_handler legacy_samples URL_samples ALLOWLIST unreachable
        (client_request ''/?url=nonsense'') fresh_response)) = Some 400 \<and>
   contacted (proxy_handler legacy_samples URL_samples ALLOWLIST unreachable
        (client_request ''/?url=nonsense'') fresh_response) = [] \<and>
   map out_target (contacted (proxy_handler legacy_samples URL_samples ALLOWLIST unreachable
       (client_request ''/?url=https://example.com/x'') fresh_response)) = [''https://example.com'']"
proof -
  have u1: "URL_samples (req_url (client_request ''/'')) (Some ''http://proxy.local'') = Some (proxy_local [])"
    and u2: "URL_samples (req_url (client_request ''/?url=nonsense'')) (Some ''http://proxy.local'') =
       Some (proxy_local ''?url=nonsense'')"
    by (simp_all add: client_request_def URL_samples_def URL_table_def)
  have g1: "searchParams_get (proxy_local []) ''url'' = None"
    and g2: "searchParams_get (proxy_local ''?url=nonsense'') ''url'' = Some ''nonsense''"
    by (simp_all add: sample_eval)
  have p2: "URL_samples ''nonsense'' None = None"
    by (simp add: URL_samples_def URL_table_def)
  have r3: "parseTargetFromReq URL_samples (req_url (client_request ''/?url=https://example.com/x''))
             ''http://proxy.local'' =
           Inr (Some (mkURL ''https://example.com/x'' ''https://example.com'' ''example.com''
                        ''/x'' [] []))"
    by (simp add: client_request_def resolve_example)
  have al: "allowedHost ALLOWLIST (hostname (mkURL ''https://example.com/x'' ''https://example.com'' ''example.com'' ''/x'' [] []))"
    by (simp add: ALLOWLIST_def allowedHost_def)
  have pt: "protocol_of legacy_samples
      (origin (mkURL ''https://example.com/x'' ''https://example.com'' ''example.com'' ''/x'' [] [])) \<noteq> None"
    by (simp add: legacy_samples_def mkURL_def)
  from missing_or_unparsable_target_400 [where U = URL_samples and al = ALLOWLIST
      and up = unreachable and res = fresh_response and L = legacy_samples, OF u1] g1
  obtain r1 where "proxy_handler legacy_samples URL_samples ALLOWLIST unreachable (client_request ''/'') fresh_response = Inr (r1, [])"
    "res_statusCode r1 = 400" by auto
  moreover from missing_or_unparsable_target_400 [where U = URL_samples and al = ALLOWLIST
      and up = unreachable and res = fresh_response and L = legacy_samples, OF u2] g2 p2
  obtain r2 where "proxy_handler legacy_samples URL_samples ALLOWLIST unreachable (client_request ''/?url=nonsense'') fresh_response = Inr (r2, [])"
    "res_statusCode r2 = 400" by auto
  moreover from parsed_target_not_400 [where U = URL_samples and al = ALLOWLIST
      and up = unreachable and res = fresh_response and L = legacy_samples, OF r3 al] pt
  obtain r3 q3 where "proxy_handler legacy_samples URL_samples ALLOWLIST unreachable (client_request ''/?url=https://example.com/x'') fresh_response = Inr (r3, [q3])"
    "out_target q3 = origin (mkURL ''https://example.com/x'' ''https://example.com'' ''example.com'' ''/x'' [] [])" by auto
  ultimately show ?thesis
    by (simp add: responded_def contacted_def mkURL_def)
qed

text \<open>
  Claim C4, at the requests \<^verbatim>\<open>/proxy?url=mailto:a@b\<close> and \<^verbatim>\<open>/proxy//\<close>. The value
  \<^verbatim>\<open>mailto:a@b\<close> has a scheme and no host: resolution returns its URL, whose host name is
  empty and whose origin is \<^verbatim>\<open>null\<close>, the allowlist lets it through and \<^verbatim>\<open>proxy.web\<close>
  throws on that target, so the exception leaves the handler and the answer is not the 400
  of an invalid target. At \<^verbatim>\<open>/proxy//\<close> (where \<^verbatim>\<open>req.url\<close> is \<^verbatim>\<open>//\<close>) the parameter is
  absent and the first constructor call throws outside the \<^verbatim>\<open>try\<close>, so the answer is not
  the 400 of a missing target. In both runs nothing is sent upstream.
\<close>

theorem target_resolution_throws:
  "parseTargetFromReq URL_samples ''/?url=mailto:a@b'' ''http://proxy.local'' =
     Inr (Some (mkURL ''mailto:a@b'' ''null'' [] ''a@b'' [] [])) \<and>
   hostname (mkURL ''mailto:a@b'' ''null'' [] ''a@b'' [] []) = [] \<and>
   proxy_handler legacy_samples URL_samples ALLOWLIST unreachable
     (client_request ''/?url=mailto:a@b'') fresh_response = Inl TypeError \<and>
   parseTargetFromReq URL_samples ''//'' ''http://proxy.local'' = Inl TypeError \<and>
   proxy_handler legacy_samples URL_samples ALLOWLIST unreachable
     (client_request ''//'') fresh_response = Inl TypeError \<and>
   map_option res_statusCode
     (responded (proxy_handler legacy_samples URL_samples ALLOWLIST unreachable
        (client_request ''/?url=mailto:a@b'') fresh_response)) = None \<and>
   map_option res_statusCode
     (responded (proxy_handler legacy_samples URL_samples ALLOWLIST unreachable
        (client_request ''//'') fresh_response)) = None"
proof -
  have m: "proxy_handler legacy_samples URL_samples ALLOWLIST unreachable
     (client_request ''/?url=mailto:a@b'') fresh_response = Inl TypeError"
    by (simp add: resolve_mailto proxy_handler_def client_request_def ALLOWLIST_def
        allowedHost_def mkURL_def proxy_web_def legacy_samples_def Let_def)
  have p: "parseTargetFromReq URL_samples ''//'' ''http://proxy.local'' = Inl TypeError"
    by (simp add: parseTargetFromReq_def URL_samples_def URL_table_def)
  have s: "proxy_handler legacy_samples URL_samples ALLOWLIST unreachable
     (client_request ''//'') fresh_response = Inl TypeError"
    by (simp add: p proxy_handler_def client_request_def)
  show ?thesis
    unfolding m s by (simp add: resolve_mailto p mkURL_def responded_def)
qed

lemma endsWith_suffix: "endsWith s t = suffix t s"
proof
  assume "endsWith s t"
  then have "s = take (length s - length t) s @ t"
    by (metis append_take_drop_id endsWith_def)
  then show "suffix t s" by (metis suffixI)
next
  assume "suffix t s"
  then obtain p where "s = p @ t" by (auto simp: suffix_def)
  then show "endsWith s t" by (simp add: endsWith_def)
qed

text \<open>
  Claim C5. With a configured allowlist \<open>hs\<close>, a host name is accepted exactly when it is
  an entry or a subdomain of an entry; \<^verbatim>\<open>example.com\<close> passes the list with the one entry
  \<^verbatim>\<open>example.com\<close> and \<^verbatim>\<open>evil.example.com.attacker.net\<close> does not; and a target whose host
  is not accepted is answered with status 403, nothing being sent upstream.
\<close>

theorem allowlist_exact_or_subdomain:
  "(allowedHost (Some hs) hn \<longleftrightarrow> (\<exists>h \<in> set hs. hn = h \<or> is_subdomain_of hn h)) \<and>
   allowedHost (Some [''example.com'']) ''example.com'' \<and>
   \<not> allowedHost (Some [''example.com'']) ''evil.example.com.attacker.net'' \<and>
   (\<forall>t. parseTargetFromReq U (req_url req) ''http://proxy.local'' = Inr (Some t) \<and>
        \<not> allowedHost al (hostname t) \<longrightarrow>
      (\<exists>res'. proxy_handler L U al up req res = Inr (res', []) \<and> res_statusCode res' = 403))"
proof -
  have a: "allowedHost (Some hs) hn \<longleftrightarrow> (\<exists>h \<in> set hs. hn = h \<or> is_subdomain_of hn h)"
    by (auto simp: allowedHost_def list_ex_iff endsWith_suffix is_subdomain_of_def)
  have b: "allowedHost (Some [''example.com'']) ''example.com''"
    by (simp add: allowedHost_def)
  have c: "\<not> allowedHost (Some [''example.com'']) ''evil.example.com.attacker.net''"
    by (simp add: allowedHost_def endsWith_def)
  have d: "\<forall>t. parseTargetFromReq U (req_url req) ''http://proxy.local'' = Inr (Some t) \<and>
        \<not> allowedHost al (hostname t) \<longrightarrow>
      (\<exists>res'. proxy_handler L U al up req res = Inr (res', []) \<and> res_statusCode res' = 403)"
    by (simp add: proxy_handler_def res_statusCode_send)
  from a b c d show ?thesis by blast
qed

text \<open>
  The theorem at the list \<^verbatim>\<open>example.com, web.example.org\<close> and the host
  \<^verbatim>\<open>api.example.com\<close>, and at the two requests of the claim.
\<close>

theorem allowlist_exact_or_subdomain_witness:
  "allowedHost (Some [''example.com'', ''web.example.org'']) ''api.example.com'' \<and>
   is_subdomain_of ''api.example.com'' ''example.com'' \<and>
   map_option res_statusCode
     (responded (proxy_handler legacy_samples URL_samples (Some [''example.com'']) unreachable
        (client_request ''/?url=https://evil.example.com.attacker.net/x'') fresh_response)) =
     Some 403 \<and>
   contacted (proxy_handler legacy_samples URL_samples (Some [''example.com'']) unreachable
        (client_request ''/?url=https://evil.example.com.attacker.net/x'') fresh_response) = [] \<and>
   map_option res_statusCode
     (responded (proxy_handler legacy_samples URL_samples (Some [''example.com'']) (ok_upstream ''hello'')
        (client_request ''/?url=https://example.com/x'') fresh_response)) = Some 200"
proof -
  note T = allowlist_exact_or_subdomain
      [of "[''example.com'', ''web.example.org'']" "''api.example.com''" URL_samples
        "client_request ''/?url=https://evil.example.com.attacker.net/x''" "Some [''example.com'']"
        legacy_samples unreachable fresh_response]
  have sub: "is_subdomain_of ''api.example.com'' ''example.com''"
    by (simp add: is_subdomain_of_def suffix_def)
  have r: "parseTargetFromReq URL_samples
             (req_url (client_request ''/?url=https://evil.example.com.attacker.net/x''))
             ''http://proxy.local'' =
           Inr (Some (mkURL ''https://evil.example.com.attacker.net/x''
             ''https://evil.example.com.attacker.net'' ''evil.example.com.attacker.net''
             ''/x'' [] []))"
    by (simp add: client_request_def resolve_evil)
  have h: "hostname (mkURL ''https://evil.example.com.attacker.net/x''
             ''https://evil.example.com.attacker.net'' ''evil.example.com.attacker.net''
             ''/x'' [] []) = ''evil.example.com.attacker.net''"
    by (simp add: mkURL_def)
  from T sub have w1: "allowedHost (Some [''example.com'', ''web.example.org'']) ''api.example.com''"
    by simp
  from T r h obtain res' where
    "proxy_handler legacy_samples URL_samples (Some [''example.com'']) unreachable
        (client_request ''/?url=https://evil.example.com.attacker.net/x'') fresh_response =
       Inr (res', [])"
    "res_statusCode res' = 403"
    by auto
  then have w2: "map_option res_statusCode
     (responded (proxy_handler legacy_samples URL_samples (Some [''example.com'']) unreachable
        (client_request ''/?url=https://evil.example.com.attacker.net/x'') fresh_response)) =
     Some 403"
    and w3: "contacted (proxy_handler legacy_samples URL_samples (Some [''example.com'']) unreachable
        (client_request ''/?url=https://evil.example.com.attacker.net/x'') fresh_response) = []"
    by (simp_all add: responded_def contacted_def)
  have w4: "map_option res_statusCode
     (responded (proxy_handler legacy_samples URL_samples (Some [''example.com'']) (ok_upstream ''hello'')
        (client_request ''/?url=https://example.com/x'') fresh_response)) = Some 200"
    by (simp add: proxy_handler_def client_request_def resolve_example allowedHost_def mkURL_def
        proxy_web_def web_stream_def legacy_samples_def ok_upstream_def relay_def responded_def
        setRedirectHostRewrite_statusCode on_proxyRes_statusCode Let_def)
  from w1 sub w2 w3 w4 show ?thesis by simp
qed

section \<open>The request hook\<close>

lemma on_proxyReq_headers:
  assumes "targetOrigin req = Some org" and "org \<noteq> []"
  shows "out_headers (on_proxyReq proxyReq req) =
           (out_headers proxyReq)
             (''origin'' \<mapsto> org, ''referer'' \<mapsto> org @ ''/'',
              ''user-agent'' := (if truthy (req_headers req ''user-agent'')
                                then out_headers proxyReq ''user-agent''
                                else Some default_user_agent))"
  using assms by (auto simp: on_proxyReq_def setHeader_def Let_def)

text \<open>
  Every request the \<^verbatim>\<open>/proxy\<close> handler sends upstream goes to the origin of the resolved
  target, carries that origin as \<^verbatim>\<open>Origin\<close> and the root URL of that origin (the origin
  followed by a slash) as \<^verbatim>\<open>Referer\<close>, whatever the client sent, and keeps the client's
  \<^verbatim>\<open>User-Agent\<close> unless the client sent none or an empty one, in which case it carries
  the default.
\<close>

lemma outbound_headers:
  assumes "proxy_handler L U al up req res = Inr (res', outs)" and "proxyReq \<in> set outs"
  shows "\<exists>t. parseTargetFromReq U (req_url req) ''http://proxy.local'' = Inr (Some t) \<and>
           out_target proxyReq = origin t \<and>
           (origin t \<noteq> [] \<longrightarrow>
              out_headers proxyReq ''origin'' = Some (origin t) \<and>
              out_headers proxyReq ''referer'' = Some (origin t @ ''/'') \<and>
              out_headers proxyReq ''user-agent'' =
                (if truthy (req_headers req ''user-agent'') then req_headers req ''user-agent''
                 else Some default_user_agent))"
proof (cases "parseTargetFromReq U (req_url req) ''http://proxy.local''")
  case (Inl e)
  with assms show ?thesis by (simp add: proxy_handler_def)
next
  case (Inr v)
  show ?thesis
  proof (cases v)
    case None
    with Inr assms show ?thesis by (auto simp: proxy_handler_def)
  next
    case (Some t)
    show ?thesis
    proof (cases "allowedHost al (hostname t)")
      case False
      with Inr Some assms show ?thesis by (auto simp: proxy_handler_def)
    next
      case True
      let ?req2 = "req\<lparr>targetOrigin := Some (origin t), proto := Some (first_proto req),
                        req_url := pathname t @ search t @ hash t\<rparr>"
      let ?p0 = "\<lparr>out_target = origin t, out_path = req_url ?req2, out_headers = req_headers ?req2\<rparr>"
      from Inr Some True assms have p: "proxyReq = on_proxyReq ?p0 ?req2"
        by (auto simp: proxy_handler_def proxy_web_def web_stream_def Let_def
            split: upstream_result.splits if_splits)
      have tgt: "out_target (on_proxyReq ?p0 ?req2) = origin t"
        by (simp add: on_proxyReq_def setHeader_def Let_def)
      have "origin t \<noteq> [] \<Longrightarrow> out_headers (on_proxyReq ?p0 ?req2) =
           (out_headers ?p0)
             (''origin'' \<mapsto> origin t, ''referer'' \<mapsto> origin t @ ''/'',
              ''user-agent'' := (if truthy (req_headers ?req2 ''user-agent'')
                                then out_headers ?p0 ''user-agent''
                                else Some default_user_agent))"
        by (rule on_proxyReq_headers) simp_all
      with Inr Some p tgt show ?thesis by simp
    qed
  qed
qed

text \<open>
  A request for \<^verbatim>\<open>https://example.com/x\<close> whose client sent its own \<^verbatim>\<open>Origin\<close> and
  \<^verbatim>\<open>User-Agent\<close>.
\<close>

lemma outbound_headers_example:
  "sent_targets (proxy_handler legacy_samples URL_samples ALLOWLIST (ok_upstream ''hello'')
        ((client_request ''/?url=https://example.com/x'')
           \<lparr>req_headers := [''origin'' \<mapsto> ''http://proxy.example'',
                            ''user-agent'' \<mapsto> ''curl/8.0'']\<rparr>)
        fresh_response) = [''https://example.com''] \<and>
   sent_header ''origin'' (proxy_handler legacy_samples URL_samples ALLOWLIST (ok_upstream ''hello'')
        ((client_request ''/?url=https://example.com/x'')
           \<lparr>req_headers := [''origin'' \<mapsto> ''http://proxy.example'',
                            ''user-agent'' \<mapsto> ''curl/8.0'']\<rparr>)
        fresh_response) = [Some ''https://example.com''] \<and>
   sent_header ''referer'' (proxy_handler legacy_samples URL_samples ALLOWLIST (ok_upstream ''hello'')
        ((client_request ''/?url=https://example.com/x'')
           \<lparr>req_headers := [''origin'' \<mapsto> ''http://proxy.example'',
                            ''user-agent'' \<mapsto> ''curl/8.0'']\<rparr>)
        fresh_response) = [Some ''https://example.com/''] \<and>
   sent_header ''user-agent'' (proxy_handler legacy_samples URL_samples ALLOWLIST (ok_upstream ''hello'')
        ((client_request ''/?url=https://example.com/x'')
           \<lparr>req_headers := [''origin'' \<mapsto> ''http://proxy.example'',
                            ''user-agent'' \<mapsto> ''curl/8.0'']\<rparr>)
        fresh_response) = [Some ''curl/8.0'']"
proof -
  let ?req = "(client_request ''/?url=https://example.com/x'')
           \<lparr>req_headers := [''origin'' \<mapsto> ''http://proxy.example'',
                            ''user-agent'' \<mapsto> ''curl/8.0'']\<rparr>"
  let ?t = "mkURL ''https://example.com/x'' ''https://example.com'' ''example.com'' ''/x'' [] []"
  have r: "parseTargetFromReq URL_samples (req_url ?req) ''http://proxy.local'' = Inr (Some ?t)"
    by (simp add: client_request_def resolve_example)
  obtain res' p where run:
    "proxy_handler legacy_samples URL_samples ALLOWLIST (ok_upstream ''hello'') ?req fresh_response =
       Inr (res', [p])"
    using r
    by (simp add: proxy_handler_def ALLOWLIST_def allowedHost_def proxy_web_def web_stream_def
        legacy_samples_def mkURL_def ok_upstream_def Let_def)
  from outbound_headers [OF run, of p] r
  have "out_target p = origin ?t \<and>
        (origin ?t \<noteq> [] \<longrightarrow>
              out_headers p ''origin'' = Some (origin ?t) \<and>
              out_headers p ''referer'' = Some (origin ?t @ ''/'') \<and>
              out_headers p ''user-agent'' =
                (if truthy (req_headers ?req ''user-agent'') then req_headers ?req ''user-agent''
                 else Some default_user_agent))"
    by simp
  then have "out_target p = ''https://example.com'' \<and>
     out_headers p ''origin'' = Some ''https://example.com'' \<and>
     out_headers p ''referer'' = Some ''https://example.com/'' \<and>
     out_headers p ''user-agent'' = Some ''curl/8.0''"
    by (simp add: mkURL_def truthy_def)
  with run show ?thesis
    by (simp add: contacted_def sent_targets_def sent_header_def)
qed

text \<open>
  The handshake request of an upgrade carries the headers of the client's request as they
  came: no hook runs on it.
\<close>

lemma upgrade_headers_unchanged:
  assumes "upgrade_handler L U al req sock = Inr (sock', Some handshake)"
  shows "out_headers handshake = req_headers req"
  using assms
  by (auto simp: upgrade_handler_def proxy_ws_def Let_def
      split: sum.splits option.splits if_splits)

text \<open>
  Claim C6, at an upgrade request for \<^verbatim>\<open>/proxy?url=wss://echo.example/chat?room=1\<close> sent
  by a page of the proxy with \<^verbatim>\<open>Origin: http://proxy.example\<close> and neither \<^verbatim>\<open>Referer\<close>
  nor \<^verbatim>\<open>User-Agent\<close>. The target resolves to the origin \<^verbatim>\<open>wss://echo.example\<close>, which
  the handler stores on the request; the handshake request goes upstream to that origin
  with the path \<^verbatim>\<open>/chat?room=1\<close>, and it carries \<^verbatim>\<open>Origin: http://proxy.example\<close>, no
  \<^verbatim>\<open>Referer\<close> and no \<^verbatim>\<open>User-Agent\<close>: the headers of the target's origin are not set on
  this outbound request.
\<close>

theorem upgrade_headers_not_injected:
  "relayed (upgrade_handler legacy_samples URL_samples ALLOWLIST
       (upgrade_request ''/proxy?url=wss://echo.example/chat?room=1'') new_socket) =
     Some (''wss://echo.example'', ''/chat?room=1'') \<and>
   handshake_header ''origin'' (upgrade_handler legacy_samples URL_samples ALLOWLIST
       (upgrade_request ''/proxy?url=wss://echo.example/chat?room=1'') new_socket) =
     Some (Some ''http://proxy.example'') \<and>
   handshake_header ''referer'' (upgrade_handler legacy_samples URL_samples ALLOWLIST
       (upgrade_request ''/proxy?url=wss://echo.example/chat?room=1'') new_socket) =
     Some None \<and>
   handshake_header ''user-agent'' (upgrade_handler legacy_samples URL_samples ALLOWLIST
       (upgrade_request ''/proxy?url=wss://echo.example/chat?room=1'') new_socket) =
     Some None"
proof -
  have run: "upgrade_handler legacy_samples URL_samples ALLOWLIST
       (upgrade_request ''/proxy?url=wss://echo.example/chat?room=1'') new_socket =
     Inr (new_socket,
          Some \<lparr>out_target = ''wss://echo.example'', out_path = ''/chat?room=1'',
                out_headers = [''host'' \<mapsto> ''proxy.example'', ''upgrade'' \<mapsto> ''websocket'',
                               ''origin'' \<mapsto> ''http://proxy.example'']\<rparr>)"
    by (simp add: upgrade_handler_def upgrade_request_def resolve_echo ALLOWLIST_def
        allowedHost_def mkURL_def proxy_ws_def legacy_samples_def Let_def)
  show ?thesis
    unfolding run by (simp add: relayed_def handshake_header_def)
qed

section \<open>Dispatch\<close>

text \<open>
  Claim C7. For a request whose \<^verbatim>\<open>url\<close> parameter is an absolute URL \<open>T\<close> (one the
  constructor accepts, with a host the allowlist lets through) and an upstream that
  answers 200 with the body \<open>B\<close> (so the origin of \<open>T\<close> has a protocol, and the library
  can send to it), the handler sends one request to the origin of \<open>T\<close>, with the path,
  query and fragment of \<open>T\<close> as its request URL, and the client's response has status
  200 and the body \<open>B\<close>, unchanged.
\<close>

theorem body_passthrough:
  assumes "U (req_url req) (Some ''http://proxy.local'') = Some r"
    and "searchParams_get r ''url'' = Some T" and "T \<noteq> []" and "U T None = Some t"
    and "allowedHost al (hostname t)"
    and "protocol_of L (origin t) \<noteq> None"
    and "\<And>proxyReq. \<exists>pr. up proxyReq = UpResponse pr \<and> pr_statusCode pr = 200 \<and> pr_body pr = B"
  shows "\<exists>res' proxyReq. proxy_handler L U al up req fresh_response = Inr (res', [proxyReq]) \<and>
           out_target proxyReq = origin t \<and>
           out_path proxyReq = pathname t @ search t @ hash t \<and>
           res_statusCode res' = 200 \<and> res_body res' = B"
proof -
  let ?req2 = "req\<lparr>targetOrigin := Some (origin t), proto := Some (first_proto req),
                    req_url := pathname t @ search t @ hash t\<rparr>"
  let ?res1 = "res_cookie fresh_response
                 \<lparr>ck_name = ''last_target'', ck_value = origin t, ck_httpOnly = False,
                  ck_sameSite = ''Lax'', ck_maxAge = 1000 * 60 * 60 * 24 * 14\<rparr>"
  let ?p = "on_proxyReq \<lparr>out_target = origin t, out_path = req_url ?req2,
                          out_headers = req_headers ?req2\<rparr> ?req2"
  let ?pr = "\<lambda>pr. setRedirectHostRewrite L ?req2 (origin t) (on_proxyRes U pr ?req2)"
  from assms(1-5) have "proxy_handler L U al up req fresh_response =
      proxy_web L U up ?req2 ?res1 (origin t)"
    by (simp add: proxy_handler_def parseTargetFromReq_cases Let_def)
  with assms(6) have h: "proxy_handler L U al up req fresh_response =
      Inr (web_stream L U up ?req2 ?res1 (origin t))"
    by (simp add: proxy_web_def)
  from assms(7) obtain pr where pr: "up ?p = UpResponse pr" "pr_statusCode pr = 200" "pr_body pr = B"
    by blast
  have tgt: "out_target ?p = origin t"
    and pth: "out_path ?p = pathname t @ search t @ hash t"
    by (simp_all add: on_proxyReq_def setHeader_def Let_def)
  have w: "web_stream L U up ?req2 ?res1 (origin t) = (relay (?pr pr) ?res1, [?p])"
    using pr(1) by (simp add: web_stream_def Let_def)
  have st: "res_statusCode (relay (?pr pr) ?res1) = 200"
    and bd: "res_body (relay (?pr pr) ?res1) = B"
    using pr(2,3)
    by (simp_all add: relay_def setRedirectHostRewrite_statusCode setRedirectHostRewrite_body
        on_proxyRes_statusCode on_proxyRes_body res_cookie_def fresh_response_def)
  show ?thesis unfolding h w using tgt pth st bd by simp
qed

text \<open>The theorem at \<^verbatim>\<open>/proxy?url=https://example.com/x\<close>.\<close>

theorem body_passthrough_witness:
  "map_option res_statusCode (responded (proxy_handler legacy_samples URL_samples ALLOWLIST (ok_upstream ''<p>hello</p>'')
        (client_request ''/?url=https://example.com/x'') fresh_response)) = Some 200 \<and>
   map_option res_body (responded (proxy_handler legacy_samples URL_samples ALLOWLIST (ok_upstream ''<p>hello</p>'')
        (client_request ''/?url=https://example.com/x'') fresh_response)) = Some ''<p>hello</p>'' \<and>
   sent_targets (proxy_handler legacy_samples URL_samples ALLOWLIST (ok_upstream ''<p>hello</p>'')
        (client_request ''/?url=https://example.com/x'') fresh_response) = [''https://example.com''] \<and>
   sent_paths (proxy_handler legacy_samples URL_samples ALLOWLIST (ok_upstream ''<p>hello</p>'')
        (client_request ''/?url=https://example.com/x'') fresh_response) = [''/x'']"
proof -
  let ?t = "mkURL ''https://example.com/x'' ''https://example.com'' ''example.com'' ''/x'' [] []"
  have u: "URL_samples (req_url (client_request ''/?url=https://example.com/x''))
             (Some ''http://proxy.local'') = Some (proxy_local ''?url=https://example.com/x'')"
    by (simp add: client_request_def URL_samples_def URL_table_def)
  have g: "searchParams_get (proxy_local ''?url=https://example.com/x'') ''url'' =
             Some ''https://example.com/x''"
    by (simp add: sample_eval)
  have n: "''https://example.com/x'' \<noteq> []" by simp
  have p: "URL_samples ''https://example.com/x'' None = Some ?t"
    by (simp add: URL_samples_def URL_table_def)
  have al: "allowedHost ALLOWLIST (hostname ?t)"
    by (simp add: ALLOWLIST_def allowedHost_def)
  have pt: "protocol_of legacy_samples (origin ?t) \<noteq> None"
    by (simp add: legacy_samples_def mkURL_def)
  have up: "\<And>proxyReq. \<exists>pr. ok_upstream ''<p>hello</p>'' proxyReq = UpResponse pr \<and>
              pr_statusCode pr = 200 \<and> pr_body pr = ''<p>hello</p>''"
    by (simp add: ok_upstream_def)
  from body_passthrough [where U = URL_samples and up = "ok_upstream ''<p>hello</p>''"
      and L = legacy_samples, OF u g n p al pt up]
  show ?thesis
    by (auto simp: responded_def sent_targets_def sent_paths_def contacted_def mkURL_def)
qed

section \<open>The error hook\<close>

text \<open>
  Claim C8, as amended. On a response that has not ended, the error hook does the
  following, whatever the error is. If the headers have not been sent, the status is 502,
  the content type is \<^verbatim>\<open>text/plain\<close> and the text \<^verbatim>\<open>Proxy error\<close> is the end of the body.
  If the headers have been sent, status and headers stay as they are and the same text is
  written at the end of the body. In both cases the response is ended.
\<close>

theorem error_hook_response:
  assumes "\<not> finished res"
  shows "(\<not> headersSent res \<longrightarrow>
            res_statusCode (on_error err req res) = 502 \<and>
            res_headers (on_error err req res) ''content-type'' = Some ''text/plain'' \<and>
            res_body (on_error err req res) = res_body res @ ''Proxy error'') \<and>
         (headersSent res \<longrightarrow>
            res_statusCode (on_error err req res) = res_statusCode res \<and>
            res_headers (on_error err req res) = res_headers res \<and>
            res_body (on_error err req res) = res_body res @ ''Proxy error'') \<and>
         finished (on_error err req res) \<and>
         on_error err req res = on_error err' req res"
  using assms by (simp add: on_error_def res_end_def writeHead_def)

text \<open>
  The theorem at a connection that was refused before anything was sent, and at a socket
  that hung up after the headers and the start of the body.
\<close>

theorem error_hook_response_witness:
  "res_statusCode (on_error ''connect ECONNREFUSED 10.0.0.7:443'' (client_request ''/x'') fresh_response) = 502 \<and>
   res_headers (on_error ''connect ECONNREFUSED 10.0.0.7:443'' (client_request ''/x'') fresh_response)
     ''content-type'' = Some ''text/plain'' \<and>
   res_body (on_error ''connect ECONNREFUSED 10.0.0.7:443'' (client_request ''/x'') fresh_response) =
     ''Proxy error'' \<and>
   res_statusCode (on_error ''socket hang up'' (client_request ''/x'')
       (fresh_response\<lparr>res_body := ''<html>'', headersSent := True\<rparr>)) = 200 \<and>
   res_body (on_error ''socket hang up'' (client_request ''/x'')
       (fresh_response\<lparr>res_body := ''<html>'', headersSent := True\<rparr>)) = ''<html>Proxy error''"
proof -
  have a: "\<not> finished fresh_response"
    and b: "\<not> finished (fresh_response\<lparr>res_body := ''<html>'', headersSent := True\<rparr>)"
    by (simp_all add: fresh_response_def)
  show ?thesis
    using error_hook_response [OF a, of "''connect ECONNREFUSED 10.0.0.7:443''" "client_request ''/x''"]
      error_hook_response [OF b, of "''socket hang up''" "client_request ''/x''"]
    by (simp add: fresh_response_def)
qed

text \<open>
  The claim as stated fails once the headers have been sent: the hook does not only end
  the response, it writes \<^verbatim>\<open>Proxy error\<close> into the body that is under way.
\<close>

theorem error_after_headers_writes_body:
  "res_body (fresh_response\<lparr>res_body := ''<html>'', headersSent := True\<rparr>) = ''<html>'' \<and>
   res_body (on_error ''socket hang up'' (client_request ''/x'')
       (fresh_response\<lparr>res_body := ''<html>'', headersSent := True\<rparr>)) = ''<html>Proxy error''"
  by (simp add: on_error_def res_end_def fresh_response_def)

section \<open>The upgrade handler\<close>

text \<open>
  The upgrade handler resolves the target with the same function and the same allowlist
  test as the \<^verbatim>\<open>/proxy\<close> handler. Where resolution throws, both throw. Where resolution
  returns no target or the host is not allowed, the \<^verbatim>\<open>/proxy\<close> handler answers 400 or 403
  and the upgrade handler destroys the socket, writing nothing to it. Where resolution
  gives the target \<open>t\<close> and the origin of \<open>t\<close> has a protocol, the upgrade handler leaves
  the socket open and relays the handshake to the origin of \<open>t\<close> with the path, query and
  fragment of \<open>t\<close> as request URL, the same target and path the \<^verbatim>\<open>/proxy\<close> handler sends;
  where that origin has no protocol, both throw.
\<close>

lemma upgrade_resolution:
  "(\<forall>e. parseTargetFromReq U (req_url req) ''http://proxy.local'' = Inl e \<longrightarrow>
      upgrade_handler L U al req sock = Inl e \<and> proxy_handler L U al up req res = Inl e) \<and>
   (parseTargetFromReq U (req_url req) ''http://proxy.local'' = Inr None \<or>
    (\<exists>t. parseTargetFromReq U (req_url req) ''http://proxy.local'' = Inr (Some t) \<and>
         \<not> allowedHost al (hostname t)) \<longrightarrow>
      (\<exists>sock'. upgrade_handler L U al req sock = Inr (sock', None) \<and>
         destroyed sock' \<and> sock_written sock' = sock_written sock) \<and>
      (\<exists>res'. proxy_handler L U al up req res = Inr (res', []) \<and>
         (res_statusCode res' = 400 \<or> res_statusCode res' = 403))) \<and>
   (\<forall>t. parseTargetFromReq U (req_url req) ''http://proxy.local'' = Inr (Some t) \<and>
        allowedHost al (hostname t) \<and> protocol_of L (origin t) \<noteq> None \<longrightarrow>
      (\<exists>handshake. upgrade_handler L U al req sock = Inr (sock, Some handshake) \<and>
         out_target handshake = origin t \<and>
         out_path handshake = pathname t @ search t @ hash t) \<and>
      (\<exists>res' proxyReq. proxy_handler L U al up req res = Inr (res', [proxyReq]) \<and>
         out_target proxyReq = origin t \<and>
         out_path proxyReq = pathname t @ search t @ hash t)) \<and>
   (\<forall>t. parseTargetFromReq U (req_url req) ''http://proxy.local'' = Inr (Some t) \<and>
        allowedHost al (hostname t) \<and> protocol_of L (origin t) = None \<longrightarrow>
      upgrade_handler L U al req sock = Inl TypeError \<and>
      proxy_handler L U al up req res = Inl TypeError)"
  by (auto simp: upgrade_handler_def proxy_handler_def destroy_def res_statusCode_send Let_def
        proxy_web_def web_stream_def proxy_ws_def on_proxyReq_def setHeader_def
      split: upstream_result.splits)

text \<open>
  An upgrade request for \<^verbatim>\<open>wss://echo.example/chat?room=1\<close>, without and with an allowlist
  that excludes the host, and an upgrade request without the parameter.
\<close>

lemma upgrade_resolution_examples:
  "relayed (upgrade_handler legacy_samples URL_samples ALLOWLIST
       (upgrade_request ''/proxy?url=wss://echo.example/chat?room=1'') new_socket) =
     Some (''wss://echo.example'', ''/chat?room=1'') \<and>
   client_socket (upgrade_handler legacy_samples URL_samples ALLOWLIST
       (upgrade_request ''/proxy?url=wss://echo.example/chat?room=1'') new_socket) = Some new_socket \<and>
   client_socket (upgrade_handler legacy_samples URL_samples ALLOWLIST (upgrade_request ''/'') new_socket) =
     Some \<lparr>sock_written = [], destroyed = True\<rparr> \<and>
   relayed (upgrade_handler legacy_samples URL_samples ALLOWLIST (upgrade_request ''/'') new_socket) = None \<and>
   client_socket (upgrade_handler legacy_samples URL_samples (Some [''example.com''])
       (upgrade_request ''/proxy?url=wss://echo.example/chat?room=1'') new_socket) =
     Some \<lparr>sock_written = [], destroyed = True\<rparr>"
proof -
  let ?t = "mkURL ''wss://echo.example/chat?room=1'' ''wss://echo.example'' ''echo.example''
                  ''/chat'' ''?room=1'' []"
  let ?rq = "upgrade_request ''/proxy?url=wss://echo.example/chat?room=1''"
  have r1: "parseTargetFromReq URL_samples (req_url ?rq) ''http://proxy.local'' = Inr (Some ?t)"
    by (simp add: upgrade_request_def resolve_echo)
  have r2: "parseTargetFromReq URL_samples (req_url (upgrade_request ''/'')) ''http://proxy.local'' = Inr None"
    by (simp add: upgrade_request_def resolve_missing)
  have a1: "allowedHost ALLOWLIST (hostname ?t)"
    by (simp add: ALLOWLIST_def allowedHost_def)
  have a3: "\<not> allowedHost (Some [''example.com'']) (hostname ?t)"
    by (simp add: allowedHost_def mkURL_def endsWith_def)
  have pt: "protocol_of legacy_samples (origin ?t) \<noteq> None"
    by (simp add: legacy_samples_def mkURL_def)
  from upgrade_resolution [of URL_samples ?rq legacy_samples ALLOWLIST new_socket unreachable
      fresh_response] r1 a1 pt
  obtain h where w1: "upgrade_handler legacy_samples URL_samples ALLOWLIST ?rq new_socket =
        Inr (new_socket, Some h)"
      "out_target h = origin ?t" "out_path h = pathname ?t @ search ?t @ hash ?t"
    by auto
  from upgrade_resolution [of URL_samples "upgrade_request ''/''" legacy_samples ALLOWLIST
      new_socket unreachable fresh_response] r2
  obtain s2 where w2: "upgrade_handler legacy_samples URL_samples ALLOWLIST (upgrade_request ''/'') new_socket = Inr (s2, None)"
      "destroyed s2" "sock_written s2 = sock_written new_socket"
    by auto
  from upgrade_resolution [of URL_samples ?rq legacy_samples "Some [''example.com'']" new_socket
      unreachable fresh_response] r1 a3
  obtain s3 where w3: "upgrade_handler legacy_samples URL_samples (Some [''example.com'']) ?rq new_socket = Inr (s3, None)"
      "destroyed s3" "sock_written s3 = sock_written new_socket"
    by auto
  have eq: "\<And>s. destroyed s \<Longrightarrow> sock_written s = sock_written new_socket \<Longrightarrow>
      s = \<lparr>sock_written = [], destroyed = True\<rparr>"
    by (simp add: new_socket_def)
  from w1 w2 w3 show ?thesis
    by (simp add: relayed_def client_socket_def mkURL_def eq)
qed

text \<open>
  The listener of the simpler variant never throws: whenever it does not relay a
  handshake, it has destroyed the socket.
\<close>

lemma variant_upgrade_closes:
  "variant_upgrade_handler L U req sock = (sock', None) \<Longrightarrow> sock' = destroy sock"
  by (auto simp: variant_upgrade_handler_def
      split: option.splits if_splits sum.splits)

text \<open>
  Claim C9, at an upgrade request whose URL is \<^verbatim>\<open>//\<close>. Resolution fails, since the URL
  constructor rejects that request URL against the base. The handler throws: the first
  constructor call of \<^verbatim>\<open>parseTargetFromReq\<close> is outside its \<^verbatim>\<open>try\<close> and the listener
  has none, so \<^verbatim>\<open>socket.destroy\<close> is never reached and the socket is not closed. The
  listener of the simpler variant catches the exception at the same request and destroys
  the socket.
\<close>

theorem upgrade_unparsable_url_throws:
  "URL_samples ''//'' (Some ''http://proxy.local'') = None \<and>
   upgrade_handler legacy_samples URL_samples ALLOWLIST (upgrade_request ''//'') new_socket =
     Inl TypeError \<and>
   client_socket (upgrade_handler legacy_samples URL_samples ALLOWLIST
      (upgrade_request ''//'') new_socket) = None \<and>
   variant_upgrade_handler legacy_samples URL_samples (upgrade_request ''//'') new_socket =
     (\<lparr>sock_written = [], destroyed = True\<rparr>, None)"
proof -
  have u: "URL_samples ''//'' (Some ''http://proxy.local'') = None"
    and v: "URL_samples ''//'' (Some ''http://placeholder'') = None"
    by (simp_all add: URL_samples_def URL_table_def)
  have run: "upgrade_handler legacy_samples URL_samples ALLOWLIST (upgrade_request ''//'')
      new_socket = Inl TypeError"
    by (simp add: upgrade_handler_def upgrade_request_def parseTargetFromReq_def u)
  have var: "variant_upgrade_handler legacy_samples URL_samples (upgrade_request ''//'')
      new_socket = (\<lparr>sock_written = [], destroyed = True\<rparr>, None)"
    by (simp add: variant_upgrade_handler_def upgrade_request_def v destroy_def new_socket_def)
  show ?thesis
    unfolding run var by (simp add: u client_socket_def)
qed

section \<open>The cookie of the proxy\<close>

text \<open>
  Claim C10. When the target resolves to \<open>t\<close> and its host passes the allowlist, the
  handler hands to the dispatch a response that already carries the cookie
  \<^verbatim>\<open>last_target\<close> with the origin of \<open>t\<close> as value, \<^verbatim>\<open>SameSite=Lax\<close> and a maximal age of
  14 days. So when the library sends to the origin of \<open>t\<close>, the upstream cannot be reached
  and nothing has been sent yet, the client's response has status 502 and that cookie.
\<close>

theorem last_target_cookie_set:
  assumes "parseTargetFromReq U (req_url req) ''http://proxy.local'' = Inr (Some t)"
    and "allowedHost al (hostname t)"
  shows "(\<exists>req'. proxy_handler L U al up req res =
            proxy_web L U up req' (res_cookie res (last_target_cookie (origin t))) (origin t)) \<and>
         (protocol_of L (origin t) \<noteq> None \<and>
          (\<forall>proxyReq. \<exists>err. up proxyReq = UpError err) \<and> \<not> headersSent res \<and> \<not> finished res \<longrightarrow>
            (\<exists>res' proxyReq. proxy_handler L U al up req res = Inr (res', [proxyReq]) \<and>
               res_statusCode res' = 502 \<and>
               res_setCookie res' = res_setCookie res @ [Own (last_target_cookie (origin t))]))"
proof -
  let ?req2 = "req\<lparr>targetOrigin := Some (origin t), proto := Some (first_proto req),
                    req_url := pathname t @ search t @ hash t\<rparr>"
  let ?res1 = "res_cookie res (last_target_cookie (origin t))"
  let ?p = "on_proxyReq \<lparr>out_target = origin t, out_path = req_url ?req2,
                          out_headers = req_headers ?req2\<rparr> ?req2"
  from assms have h: "proxy_handler L U al up req res = proxy_web L U up ?req2 ?res1 (origin t)"
    by (simp add: proxy_handler_def last_target_cookie_def Let_def)
  have e: "\<And>err. up ?p = UpError err \<Longrightarrow> \<not> headersSent res \<Longrightarrow> \<not> finished res \<Longrightarrow>
      protocol_of L (origin t) \<noteq> None \<Longrightarrow>
      proxy_web L U up ?req2 ?res1 (origin t) = Inr (on_error err ?req2 ?res1, [?p]) \<and>
      res_statusCode (on_error err ?req2 ?res1) = 502 \<and>
      res_setCookie (on_error err ?req2 ?res1) = res_setCookie res @ [Own (last_target_cookie (origin t))]"
    by (simp add: proxy_web_def web_stream_def Let_def on_error_def res_end_def writeHead_def
        res_cookie_def)
  show ?thesis
  proof (intro conjI impI)
    show "\<exists>req'. proxy_handler L U al up req res =
            proxy_web L U up req' (res_cookie res (last_target_cookie (origin t))) (origin t)"
      using h by blast
  next
    assume a: "protocol_of L (origin t) \<noteq> None \<and>
          (\<forall>proxyReq. \<exists>err. up proxyReq = UpError err) \<and> \<not> headersSent res \<and> \<not> finished res"
    then obtain err where "up ?p = UpError err" by blast
    with a e [of err] h
    show "\<exists>res' proxyReq. proxy_handler L U al up req res = Inr (res', [proxyReq]) \<and>
               res_statusCode res' = 502 \<and>
               res_setCookie res' = res_setCookie res @ [Own (last_target_cookie (origin t))]"
      by simp
  qed
qed

text \<open>The theorem at \<^verbatim>\<open>/proxy?url=https://example.com/x\<close> with an upstream that refuses.\<close>

theorem last_target_cookie_set_witness:
  "map_option res_statusCode (responded (proxy_handler legacy_samples URL_samples ALLOWLIST unreachable
       (client_request ''/?url=https://example.com/x'') fresh_response)) = Some 502 \<and>
   map_option res_setCookie (responded (proxy_handler legacy_samples URL_samples ALLOWLIST unreachable
       (client_request ''/?url=https://example.com/x'') fresh_response)) =
     Some [Own \<lparr>ck_name = ''last_target'', ck_value = ''https://example.com'', ck_httpOnly = False,
                ck_sameSite = ''Lax'', ck_maxAge = 1209600000\<rparr>]"
proof -
  let ?t = "mkURL ''https://example.com/x'' ''https://example.com'' ''example.com'' ''/x'' [] []"
  let ?rq = "client_request ''/?url=https://example.com/x''"
  have r: "parseTargetFromReq URL_samples (req_url ?rq) ''http://proxy.local'' = Inr (Some ?t)"
    by (simp add: client_request_def resolve_example)
  have al: "allowedHost ALLOWLIST (hostname ?t)"
    by (simp add: ALLOWLIST_def allowedHost_def)
  have u: "\<forall>proxyReq. \<exists>err. unreachable proxyReq = UpError err"
    by (simp add: unreachable_def)
  have f: "\<not> headersSent fresh_response" "\<not> finished fresh_response"
    by (simp_all add: fresh_response_def)
  have pt: "protocol_of legacy_samples (origin ?t) \<noteq> None"
    by (simp add: legacy_samples_def mkURL_def)
  from last_target_cookie_set [OF r al, of legacy_samples unreachable fresh_response] u f pt
  obtain res' p where "proxy_handler legacy_samples URL_samples ALLOWLIST unreachable ?rq fresh_response = Inr (res', [p])"
    "res_statusCode res' = 502"
    "res_setCookie res' = res_setCookie fresh_response @ [Own (last_target_cookie (origin ?t))]"
    by blast
  then show ?thesis
    by (simp add: responded_def fresh_response_def last_target_cookie_def mkURL_def)
qed

end
